theory Spec2Isabelle
  imports Complex_Main "HOL-Library.Sublist"
begin

section \<open>Conventions of the embedding\<close>

text \<open>
  The repository is TypeScript. Its \<^verbatim>\<open>number\<close> values are modelled as \<^typ>\<open>real\<close>, with exact
  arithmetic. Where the rounding of IEEE doubles decides what the program does, the computed
  value is an argument of the model and NaN is \<open>None\<close>: the distance is also given as a
  function of the computed haversine term (\<open>distanceFromTerm\<close>), and the checkpoint planner as
  a function of the computed distance (\<open>generateRouteCheckpointsFrom\<close>). Rounding in the last
  place elsewhere, and infinities, are outside the model. A \<^verbatim>\<open>Date\<close> is its time value, a
  whole number of milliseconds (\<^typ>\<open>int\<close>); the range check of the \<^verbatim>\<open>Date\<close> constructor
  (plus or minus 8.64e15 ms) is not modelled. Strings are byte lists; \<^verbatim>\<open>toLowerCase\<close> is
  modelled on ASCII letters. The table of counts of \<^verbatim>\<open>applyDiversityFiltering\<close>, an object
  literal that starts empty, is a map together with the members it inherits from
  \<^verbatim>\<open>Object.prototype\<close>. The fixed lookup tables of the scoring functions are association
  lists without the inherited members, so these functions are modelled for the categories
  that do not name such a member. An optional or possibly \<^verbatim>\<open>undefined\<close> field is an
  \<^typ>\<open>'a option\<close>. Calls that leave the program (the POI sources, \<^verbatim>\<open>Math.random\<close>, the id
  generator) are inputs of the functions that make them, a thrown error is the left summand of
  a sum type, and a division by a computed divisor returns \<open>None\<close> when the divisor is 0.
\<close>

section \<open>Primitives of the language\<close>

definition digitChar :: "nat \<Rightarrow> char" where
  "digitChar d = ''0123456789'' ! d"

text \<open>Decimal rendering of a natural number, as template literals render an integer.\<close>

fun showNat :: "nat \<Rightarrow> string" where
  "showNat n = (if n < 10 then [digitChar n] else showNat (n div 10) @ [digitChar (n mod 10)])"

declare showNat.simps [simp del]

text \<open>
  \<^verbatim>\<open>Number.prototype.toFixed(4)\<close> for a finite number below 10^21 in magnitude: the sign is
  taken from the argument, the magnitude is scaled by 10^4 and rounded to the nearest integer
  (the larger one on a tie), and the last four digits follow the point.
\<close>

definition toFixed4 :: "real \<Rightarrow> string" where
  "toFixed4 x =
     (let s = (if x < 0 then ''-'' else '''');
          n = nat \<lfloor>\<bar>x\<bar> * 10000 + 1 / 2\<rfloor>;
          b = n mod 10000
      in s @ showNat (n div 10000) @ ''.'' @
         [digitChar (b div 1000), digitChar (b div 100 mod 10),
          digitChar (b div 10 mod 10), digitChar (b mod 10)])"

text \<open>\<^verbatim>\<open>toLowerCase\<close> and \<^verbatim>\<open>trim\<close> on ASCII text.\<close>

definition toLowerChar :: "char \<Rightarrow> char" where
  "toLowerChar c =
     (case map_of (zip ''ABCDEFGHIJKLMNOPQRSTUVWXYZ'' ''abcdefghijklmnopqrstuvwxyz'') c of
        Some l \<Rightarrow> l
      | None \<Rightarrow> c)"

definition toLowerCase :: "string \<Rightarrow> string" where
  "toLowerCase s = map toLowerChar s"

definition trim :: "string \<Rightarrow> string" where
  "trim s = rev (dropWhile (\<lambda>c. c = CHR '' '') (rev (dropWhile (\<lambda>c. c = CHR '' '') s)))"

text \<open>\<^verbatim>\<open>Math.round\<close>: the nearest integer, the larger one on a tie.\<close>

definition mathRound :: "real \<Rightarrow> real" where
  "mathRound x = of_int \<lfloor>x + 1 / 2\<rfloor>"

text \<open>
  \<^verbatim>\<open>encodeURIComponent\<close> on UTF-8 bytes: letters, digits and \<^verbatim>\<open>- _ . ! ~ * ' ( )\<close> stay, every
  other byte becomes a percent sign and two upper-case hexadecimal digits.
\<close>

definition hexDigit :: "nat \<Rightarrow> char" where
  "hexDigit d = ''0123456789ABCDEF'' ! d"

definition uriUnreserved :: string where
  "uriUnreserved =
     ''ABCDEFGHIJKLMNOPQRSTUVWXYZabcdefghijklmnopqrstuvwxyz0123456789-_.!~*()'' @ [CHR 0x27]"

definition encodeURIComponent :: "string \<Rightarrow> string" where
  "encodeURIComponent s =
     concat (map (\<lambda>c. if c \<in> set uriUnreserved then [c]
                       else [CHR ''%'', hexDigit (of_char c div 16), hexDigit (of_char c mod 16)]) s)"

section \<open>Data model (types.ts)\<close>

record Location =
  lat :: real
  lng :: real
  address :: string

record WeatherData =
  temperature :: real
  condition :: string
  humidity :: real
  windSpeed :: real
  icon :: string

datatype endpoint = Origin | Destination

record POI =
  poi_id :: string
  name :: string
  description :: string
  category :: string
  location :: Location
  rating :: "real option"
  priceLevel :: "real option"
  photos :: "string list"
  openingHours :: "string list"
  website :: "string option"
  phone :: "string option"
  weather :: "WeatherData option"
  aiScore :: real
  distanceFromRoute :: real
  closestTo :: "endpoint option"

section \<open>POI service (poi-service.ts)\<close>

text \<open>The key built inside \<^verbatim>\<open>removeDuplicatePOIs\<close>: name, latitude and longitude joined by underscores.\<close>

definition poiKey :: "POI \<Rightarrow> string" where
  "poiKey poi = name poi @ ''_'' @ toFixed4 (lat (location poi)) @ ''_'' @ toFixed4 (lng (location poi))"

text \<open>The filter callback of \<^verbatim>\<open>removeDuplicatePOIs\<close>, with the set \<^verbatim>\<open>seen\<close> passed along.\<close>

fun removeDuplicatesFrom :: "string set \<Rightarrow> POI list \<Rightarrow> POI list" where
  "removeDuplicatesFrom seen [] = []"
| "removeDuplicatesFrom seen (poi # pois) =
     (let key = poiKey poi
      in if key \<in> seen then removeDuplicatesFrom seen pois
         else poi # removeDuplicatesFrom (insert key seen) pois)"

definition removeDuplicatePOIs :: "POI list \<Rightarrow> POI list" where
  "removeDuplicatePOIs pois = removeDuplicatesFrom {} pois"

text \<open>
  The claim's key, following the words of the specification: the name normalised (lower case,
  surrounding white space removed) with both coordinates rounded to four decimals.
\<close>

definition specKey :: "POI \<Rightarrow> string \<times> string \<times> string" where
  "specKey poi = (trim (toLowerCase (name poi)), toFixed4 (lat (location poi)), toFixed4 (lng (location poi)))"

section \<open>Weather service (weather-service.ts)\<close>

text \<open>\<^verbatim>\<open>v || d\<close> on a number that may be undefined: undefined and 0 give the default.\<close>

definition orDefault :: "real option \<Rightarrow> real \<Rightarrow> real" where
  "orDefault v d = (case v of None \<Rightarrow> d | Some x \<Rightarrow> if x = 0 then d else x)"

definition conditionScores :: "(string \<times> real) list" where
  "conditionScores =
     [(''Clear'', 1.0), (''Sunny'', 1.0), (''Partly Cloudy'', 0.9), (''Cloudy'', 0.7),
      (''Overcast'', 0.6), (''Light Rain'', 0.4), (''Rain'', 0.2), (''Heavy Rain'', 0.1),
      (''Snow'', 0.3), (''Thunderstorm'', 0.1)]"

definition getWeatherSuitabilityScore :: "WeatherData \<Rightarrow> real" where
  "getWeatherSuitabilityScore w =
     (let score = 1.0;
          score = (if temperature w < 5 \<or> temperature w > 35 then score * 0.3
                   else if temperature w < 10 \<or> temperature w > 30 then score * 0.6
                   else if temperature w < 15 \<or> temperature w > 28 then score * 0.8
                   else score);
          conditionScore = orDefault (map_of conditionScores (condition w)) 0.5;
          score = score * conditionScore;
          score = (if windSpeed w > 40 then score * 0.3
                   else if windSpeed w > 25 then score * 0.7
                   else score)
      in max 0 (min 1 score))"

section \<open>Scoring and diversity (ai-poi-filter.ts)\<close>

datatype timeOfDay = Morning | Afternoon | Evening | Night

datatype seasonality = Spring | Summer | Fall | Winter

datatype travelStyle = Adventure | Relaxed | Cultural | Family | Business

record AIFilteringCriteria =
  userPreferences :: "string list"
  weatherConditions :: WeatherData
  criteria_timeOfDay :: timeOfDay
  criteria_seasonality :: seasonality
  criteria_travelStyle :: travelStyle

record ScoreBreakdown =
  weatherSuitability :: real
  preferenceMatch :: real
  timeRelevance :: real
  seasonalRelevance :: real
  popularityScore :: real
  accessibilityScore :: real

text \<open>
  A scored POI is the POI with its score breakdown. The recommendation sentence
  (\<^verbatim>\<open>aiRecommendationReason\<close>) is text for display, takes no part in any score, and is not
  modelled.
\<close>

record ScoredPOI = POI +
  scoreBreakdown :: ScoreBreakdown

text \<open>
  The route input. Beside the declared fields, \<^verbatim>\<open>buildFilteringCriteria\<close> reads
  \<^verbatim>\<open>routeInput.weather\<close>, which the interface does not declare and the request body may carry.
\<close>

record RouteInput =
  route_from :: Location
  route_to :: Location
  departureTime :: int
  preferences :: "string list"
  route_weather :: "WeatherData option"

text \<open>\<^verbatim>\<open>s.includes(t)\<close>: \<open>t\<close> occurs in \<open>s\<close> as a contiguous block.\<close>

fun includes_str :: "string \<Rightarrow> string \<Rightarrow> bool" where
  "includes_str [] t = (t = [])"
| "includes_str (c # s) t = (prefix t (c # s) \<or> includes_str s t)"

definition styleKeywords :: "(travelStyle \<times> string list) list" where
  "styleKeywords =
     [(Adventure, [''outdoor'', ''hiking'', ''adventure'', ''sports'', ''nature'']),
      (Cultural, [''museum'', ''art'', ''history'', ''culture'', ''heritage'']),
      (Relaxed, [''coffee'', ''park'', ''scenic'', ''garden'', ''spa'']),
      (Family, [''family'', ''kids'', ''children'', ''playground'', ''zoo'']),
      (Business, [''business'', ''conference'', ''meeting'', ''hotel''])]"

fun firstStyle :: "string list \<Rightarrow> (travelStyle \<times> string list) list \<Rightarrow> travelStyle" where
  "firstStyle lowerPrefs [] = Relaxed"
| "firstStyle lowerPrefs ((style, keywords) # rest) =
     (if list_ex (\<lambda>keyword. list_ex (\<lambda>pref. includes_str pref keyword) lowerPrefs) keywords then style
      else firstStyle lowerPrefs rest)"

definition inferTravelStyle :: "string list \<Rightarrow> travelStyle" where
  "inferTravelStyle prefs = firstStyle (map toLowerCase prefs) styleKeywords"

definition getDefaultWeather :: WeatherData where
  "getDefaultWeather =
     \<lparr>temperature = 20, condition = ''Clear'', humidity = 50, windSpeed = 10, icon = [CHR 0xE2, CHR 0x98, CHR 0x80, CHR 0xEF, CHR 0xB8, CHR 0x8F]\<rparr>"

text \<open>
  \<^verbatim>\<open>buildFilteringCriteria\<close> reads the local hour (0 to 23) and the local month (0 to 11) of
  the scoring time; they are its second and third argument here.
\<close>

definition buildFilteringCriteria :: "RouteInput \<Rightarrow> nat \<Rightarrow> nat \<Rightarrow> AIFilteringCriteria" where
  "buildFilteringCriteria routeInput hour month =
     \<lparr>userPreferences = preferences routeInput,
      weatherConditions = (case route_weather routeInput of Some w \<Rightarrow> w | None \<Rightarrow> getDefaultWeather),
      criteria_timeOfDay =
        (if hour \<ge> 6 \<and> hour < 12 then Morning
         else if hour \<ge> 12 \<and> hour < 17 then Afternoon
         else if hour \<ge> 17 \<and> hour < 22 then Evening
         else Night),
      criteria_seasonality =
        (if month \<ge> 2 \<and> month \<le> 4 then Spring
         else if month \<ge> 5 \<and> month \<le> 7 then Summer
         else if month \<ge> 8 \<and> month \<le> 10 then Fall
         else Winter),
      criteria_travelStyle = inferTravelStyle (preferences routeInput)\<rparr>"

definition categoryWeatherSensitivity :: "(string \<times> real) list" where
  "categoryWeatherSensitivity =
     [(''Parks'', 1.0), (''Outdoor Activities'', 1.0), (''Scenic Views'', 0.9),
      (''Local Markets'', 0.8), (''Shopping'', 0.3), (''Museums'', 0.2), (''Restaurants'', 0.4),
      (''Entertainment'', 0.3), (''Historic Sites'', 0.6), (''Art Galleries'', 0.2),
      (''Coffee Shops'', 0.3), (''Nightlife'', 0.1)]"

text \<open>
  The second argument is the weather of the criteria, as in the source: the weather attached
  to the POI is only tested for presence.
\<close>

definition calculateWeatherSuitability :: "'a POI_scheme \<Rightarrow> WeatherData \<Rightarrow> real" where
  "calculateWeatherSuitability poi w =
     (if weather poi = None then 0.7
      else let baseWeatherScore = getWeatherSuitabilityScore w;
               sensitivity = orDefault (map_of categoryWeatherSensitivity (category poi)) 0.5
           in sensitivity * baseWeatherScore + (1 - sensitivity) * 0.8)"









text \<open>Truthiness of an optional number (undefined and 0 are falsy) and of an optional string.\<close>

definition truthyNumber :: "real option \<Rightarrow> bool" where
  "truthyNumber v = (case v of None \<Rightarrow> False | Some x \<Rightarrow> x \<noteq> 0)"

definition truthyString :: "string option \<Rightarrow> bool" where
  "truthyString v = (case v of None \<Rightarrow> False | Some s \<Rightarrow> s \<noteq> [])"

definition calculatePopularityScore :: "'a POI_scheme \<Rightarrow> real" where
  "calculatePopularityScore poi =
     (let score = 0;
          score = (if truthyNumber (rating poi) then score + (the (rating poi) / 5.0) * 0.6
                   else score + 0.3);
          score = (if truthyNumber (priceLevel poi)
                   then let priceScore = (if priceLevel poi = Some 2 \<or> priceLevel poi = Some 3 then 1.0 else 0.7)
                        in score + priceScore * 0.2
                   else score + 0.14);
          bonusScore = 0;
          bonusScore = (if truthyString (website poi) then bonusScore + 0.3 else bonusScore);
          bonusScore = (if truthyString (phone poi) then bonusScore + 0.3 else bonusScore);
          bonusScore = (if length (photos poi) > 1 then bonusScore + 0.2 else bonusScore);
          bonusScore = (if length (openingHours poi) > 0 then bonusScore + 0.2 else bonusScore);
          score = score + min 1.0 bonusScore * 0.2
      in min 1.0 score)"





text \<open>
  The loop of \<^verbatim>\<open>applyDiversityFiltering\<close>: the accepted list and the category counts are
  passed along, and the loop is left once the accepted list has 15 entries.

  The counts are kept in an object literal, \<^verbatim>\<open>const categoryCount: Record<string, number> = {}\<close>,
  and read by \<^verbatim>\<open>categoryCount[poi.category] || 0\<close>. An object literal inherits the members of
  \<^verbatim>\<open>Object.prototype\<close>: for a category that names one of them and has no count of its own yet,
  the read gives the inherited member (a function, or the prototype object for
  \<^verbatim>\<open>__proto__\<close>). It is truthy, so \<^verbatim>\<open>|| 0\<close> keeps it; \<^verbatim>\<open>currentCount < maxPerCategory\<close>
  converts it to NaN and is false, so the POI is not admitted and no count is stored.
\<close>

definition objectPrototypeMembers :: "string list" where
  "objectPrototypeMembers =
     [''constructor'', ''__defineGetter__'', ''__defineSetter__'', ''hasOwnProperty'',
      ''__lookupGetter__'', ''__lookupSetter__'', ''isPrototypeOf'', ''propertyIsEnumerable'',
      ''toString'', ''valueOf'', ''__proto__'', ''toLocaleString'']"

fun diversityLoop :: "ScoredPOI list \<Rightarrow> (string \<rightharpoonup> nat) \<Rightarrow> ScoredPOI list \<Rightarrow> ScoredPOI list" where
  "diversityLoop diversePOIs categoryCount [] = diversePOIs"
| "diversityLoop diversePOIs categoryCount (poi # rest) =
     (let inherited = (categoryCount (category poi) = None \<and>
                       category poi \<in> set objectPrototypeMembers);
          currentCount = (case categoryCount (category poi) of None \<Rightarrow> 0 | Some n \<Rightarrow> n);
          admitted = (\<not> inherited \<and> currentCount < 3);
          diversePOIs = (if admitted then diversePOIs @ [poi] else diversePOIs);
          categoryCount = (if admitted then categoryCount(category poi \<mapsto> currentCount + 1) else categoryCount)
      in if length diversePOIs \<ge> 15 then diversePOIs
         else diversityLoop diversePOIs categoryCount rest)"

definition applyDiversityFiltering :: "ScoredPOI list \<Rightarrow> ScoredPOI list" where
  "applyDiversityFiltering scoredPOIs = diversityLoop [] Map.empty scoredPOIs"

section \<open>POI aggregation (poi-service.ts)\<close>

text \<open>
  What the aggregator takes from outside: the outcome of each source call (a thrown error or
  the parsed list), the successive results of \<^verbatim>\<open>Math.random()\<close> from the call of
  \<^verbatim>\<open>generateEnhancedMockPOIs\<close> on, and the text that \<^verbatim>\<open>database.generateId()\<close> makes of the
  draw with a given index and the clock.
\<close>

datatype exn = Error string

record Env =
  serpResult :: "exn + POI list"
  osmResult :: "exn + POI list"
  random :: "nat \<Rightarrow> real"
  idText :: "nat \<Rightarrow> string"

text \<open>\<^verbatim>\<open>searchFoursquareAPI\<close> is a stub in the source: it logs and returns the empty list.\<close>

definition searchFoursquareAPI :: "Location \<Rightarrow> string list \<Rightarrow> real \<Rightarrow> exn + POI list" where
  "searchFoursquareAPI loc categories radius = Inr []"

text \<open>\<^verbatim>\<open>xs[Math.floor(r * xs.length)]\<close>, for a draw \<open>r\<close> in [0, 1).\<close>

definition pick :: "'a list \<Rightarrow> real \<Rightarrow> 'a" where
  "pick xs r = xs ! nat \<lfloor>r * real (length xs)\<rfloor>"

definition generateRealisticPOIName :: "string \<Rightarrow> real \<Rightarrow> string" where
  "generateRealisticPOIName cat r =
     (let names =
        [(''Restaurants'', [''The Garden Bistro'', ''Mama's Kitchen'', ''Riverside Grill'', ''Urban Spoon'', ''The Local Table'']),
         (''Museums'', [''Heritage Museum'', ''Art & Culture Center'', ''History House'', ''Discovery Museum'', ''Cultural Gallery'']),
         (''Parks'', [''Central Park'', ''Riverside Gardens'', ''Memorial Park'', ''Nature Reserve'', ''Community Green'']),
         (''Shopping'', [''Main Street Market'', ''Artisan Quarter'', ''The Shopping District'', ''Local Bazaar'', ''Craft Corner'']),
         (''Historic Sites'', [''Old Town Hall'', ''Heritage Building'', ''Historic Church'', ''Monument Square'', ''Ancient Ruins'']),
         (''Entertainment'', [''The Grand Theater'', ''Cinema Complex'', ''Live Music Venue'', ''Comedy Club'', ''Arts Center''])];
          categoryNames = (case map_of names cat of Some ns \<Rightarrow> ns | None \<Rightarrow> [''Local Attraction''])
      in pick categoryNames r)"

definition generateRealisticDescription :: "string \<Rightarrow> string" where
  "generateRealisticDescription cat =
     (let descriptions =
        [(''Restaurants'', ''A beloved local dining spot known for fresh ingredients and authentic flavors.''),
         (''Museums'', ''Explore fascinating exhibits showcasing local history and culture.''),
         (''Parks'', ''Beautiful green space perfect for relaxation and outdoor activities.''),
         (''Shopping'', ''Discover unique local products and handcrafted items.''),
         (''Historic Sites'', ''Step back in time and explore the rich heritage of this area.''),
         (''Entertainment'', ''Popular venue offering great entertainment and cultural experiences.'')]
      in case map_of descriptions cat of
           Some d \<Rightarrow> d
         | None \<Rightarrow> ''An interesting local attraction worth visiting.'')"

definition generateRealisticAddress :: "real \<Rightarrow> real \<Rightarrow> string" where
  "generateRealisticAddress r1 r2 =
     (let streetNumbers = nat (\<lfloor>r1 * 999\<rfloor> + 1);
          streetNames = [''Main St'', ''Oak Ave'', ''Park Rd'', ''First St'', ''Market St'', ''Church St'', ''Mill Rd''];
          streetName = pick streetNames r2
      in showNat streetNumbers @ '' '' @ streetName)"

definition generateRealisticPriceLevel :: "string \<Rightarrow> real \<Rightarrow> real" where
  "generateRealisticPriceLevel cat r =
     (let priceLevels =
        [(''Restaurants'', [2, 3, 4]), (''Museums'', [1, 2]), (''Parks'', [1]),
         (''Shopping'', [2, 3, 4]), (''Historic Sites'', [1, 2]), (''Entertainment'', [2, 3])];
          levels = (case map_of priceLevels cat of Some ls \<Rightarrow> ls | None \<Rightarrow> [2, 3])
      in pick levels r)"

definition generateRealisticOpeningHours :: "string \<Rightarrow> string list" where
  "generateRealisticOpeningHours cat =
     (let schedules =
        [(''Restaurants'', [''Mon-Thu: 11:00 AM - 10:00 PM'', ''Fri-Sat: 11:00 AM - 11:00 PM'', ''Sun: 12:00 PM - 9:00 PM'']),
         (''Museums'', [''Tue-Sun: 10:00 AM - 5:00 PM'', ''Mon: Closed'']),
         (''Parks'', [''Daily: 6:00 AM - 10:00 PM'']),
         (''Shopping'', [''Mon-Sat: 10:00 AM - 8:00 PM'', ''Sun: 12:00 PM - 6:00 PM'']),
         (''Historic Sites'', [''Daily: 9:00 AM - 5:00 PM'']),
         (''Entertainment'', [''Shows: 7:00 PM - 11:00 PM'', ''Box Office: 12:00 PM - 8:00 PM''])]
      in case map_of schedules cat of
           Some s \<Rightarrow> s
         | None \<Rightarrow> [''Daily: 9:00 AM - 6:00 PM''])"

definition generateRealisticPhoneNumber :: "real \<Rightarrow> real \<Rightarrow> real \<Rightarrow> string" where
  "generateRealisticPhoneNumber r1 r2 r3 =
     ''+1-'' @ showNat (nat (\<lfloor>r1 * 900\<rfloor> + 100)) @ ''-'' @ showNat (nat (\<lfloor>r2 * 900\<rfloor> + 100)) @
     ''-'' @ showNat (nat (\<lfloor>r3 * 9000\<rfloor> + 1000))"

text \<open>
  One record of \<^verbatim>\<open>generateEnhancedMockPOIs\<close>. The object literal is evaluated field by field,
  so the record built when \<open>k\<close> draws have been used takes the draws \<open>k\<close> to \<open>k + 13\<close> in
  this order: id, name, latitude, longitude, street number, street name, rating, price
  level, website id, three parts of the phone number, score, distance.
\<close>

definition mockPOI :: "Env \<Rightarrow> Location \<Rightarrow> string \<Rightarrow> nat \<Rightarrow> POI" where
  "mockPOI env loc cat k =
     \<lparr>poi_id = idText env k,
      name = generateRealisticPOIName cat (random env (k + 1)),
      description = generateRealisticDescription cat,
      category = cat,
      location =
        \<lparr>lat = lat loc + (random env (k + 2) - 0.5) * 0.02,
         lng = lng loc + (random env (k + 3) - 0.5) * 0.02,
         address = generateRealisticAddress (random env (k + 4)) (random env (k + 5))\<rparr>,
      rating = Some (mathRound ((random env (k + 6) * 2 + 3) * 10) / 10),
      priceLevel = Some (generateRealisticPriceLevel cat (random env (k + 7))),
      photos =
        [''/placeholder.svg?height=200&width=300&query='' @ encodeURIComponent (cat @ '' interior''),
         ''/placeholder.svg?height=200&width=300&query='' @ encodeURIComponent (cat @ '' exterior'')],
      openingHours = generateRealisticOpeningHours cat,
      website = Some (''https://example.com/'' @ idText env (k + 8)),
      phone = Some (generateRealisticPhoneNumber (random env (k + 9)) (random env (k + 10)) (random env (k + 11))),
      weather = None,
      aiScore = random env (k + 12),
      distanceFromRoute = random env (k + 13) * 5,
      closestTo = None\<rparr>"

text \<open>The inner loop: \<open>n\<close> records of one category, from draw \<open>k\<close> on; the next free draw is returned.\<close>

fun mockPOIsInCategory :: "Env \<Rightarrow> Location \<Rightarrow> string \<Rightarrow> nat \<Rightarrow> nat \<Rightarrow> POI list \<times> nat" where
  "mockPOIsInCategory env loc cat 0 k = ([], k)"
| "mockPOIsInCategory env loc cat (Suc n) k =
     (let poi = mockPOI env loc cat k;
          (rest, k') = mockPOIsInCategory env loc cat n (k + 14)
      in (poi # rest, k'))"

text \<open>The outer loop over the target categories: one draw for the number of records (2 to 5).\<close>

fun mockPOIsOfCategories :: "Env \<Rightarrow> Location \<Rightarrow> string list \<Rightarrow> nat \<Rightarrow> POI list" where
  "mockPOIsOfCategories env loc [] k = []"
| "mockPOIsOfCategories env loc (cat # cats) k =
     (let poisInCategory = \<lfloor>random env k * 4\<rfloor> + 2;
          (pois, k') = mockPOIsInCategory env loc cat (nat poisInCategory) (k + 1)
      in pois @ mockPOIsOfCategories env loc cats k')"

definition generateEnhancedMockPOIs :: "Env \<Rightarrow> Location \<Rightarrow> string list \<Rightarrow> POI list" where
  "generateEnhancedMockPOIs env loc categories =
     (let targetCategories =
        (if length categories > 0 then categories
         else [''Restaurants'', ''Museums'', ''Parks'', ''Shopping'', ''Historic Sites'', ''Entertainment''])
      in mockPOIsOfCategories env loc targetCategories 0)"

text \<open>
  \<^verbatim>\<open>searchPOIsNearLocation\<close>. Each source call sits in its own \<^verbatim>\<open>try\<close>: a thrown error is logged
  and the list is left as it is. The result is \<open>Inr\<close> of the returned list; \<open>Inl\<close> would be an
  error that reaches the caller.
\<close>

definition searchPOIsNearLocation :: "Env \<Rightarrow> Location \<Rightarrow> string list \<Rightarrow> real \<Rightarrow> exn + POI list" where
  "searchPOIsNearLocation env loc categories radius =
     (let allPOIs = [];
          allPOIs = (case serpResult env of Inr serpPOIs \<Rightarrow> allPOIs @ serpPOIs | Inl error \<Rightarrow> allPOIs);
          allPOIs = (case osmResult env of Inr osmPOIs \<Rightarrow> allPOIs @ osmPOIs | Inl error \<Rightarrow> allPOIs);
          allPOIs = (case searchFoursquareAPI loc categories radius of
                       Inr foursquarePOIs \<Rightarrow> allPOIs @ foursquarePOIs
                     | Inl error \<Rightarrow> allPOIs);
          allPOIs = (if length allPOIs = 0
                     then allPOIs @ generateEnhancedMockPOIs env loc categories
                     else allPOIs);
          uniquePOIs = removeDuplicatePOIs allPOIs
      in Inr (take 20 uniquePOIs))"

text \<open>A sample environment: the first source fails, the second finds nothing.\<close>

definition offlineEnv :: Env where
  "offlineEnv =
     \<lparr>serpResult = Inl (Error ''SerpApi error: 401 - Invalid API key''),
      osmResult = Inr [],
      random = (\<lambda>k. real (k mod 10) / 10),
      idText = (\<lambda>k. ''id'' @ showNat k)\<rparr>"

section \<open>Distance calculator (distance-calculator.ts)\<close>

definition toRadians :: "real \<Rightarrow> real" where
  "toRadians degrees = degrees * (pi / 180)"

text \<open>
  \<^verbatim>\<open>Math.atan2(y, x)\<close> on real numbers: the angle of the point \<open>(x, y)\<close>, in \<open>(-\<pi>, \<pi>]\<close>, and 0
  at the origin.
\<close>

definition atan2 :: "real \<Rightarrow> real \<Rightarrow> real" where
  "atan2 y x =
     (if x > 0 then arctan (y / x)
      else if x < 0 then (if y \<ge> 0 then arctan (y / x) + pi else arctan (y / x) - pi)
      else if y > 0 then pi / 2
      else if y < 0 then - (pi / 2)
      else 0)"

text \<open>
  \<^verbatim>\<open>DistanceCalculator.calculateDistance\<close>: the haversine formula with radius 6371 km;
  \<open>haversine\<close> is the term \<^verbatim>\<open>a\<close> of the source.
\<close>

definition haversine :: "real \<Rightarrow> real \<Rightarrow> real \<Rightarrow> real \<Rightarrow> real" where
  "haversine lat1 lng1 lat2 lng2 =
     (let dLat = toRadians (lat2 - lat1);
          dLng = toRadians (lng2 - lng1)
      in sin (dLat / 2) * sin (dLat / 2) +
         cos (toRadians lat1) * cos (toRadians lat2) * sin (dLng / 2) * sin (dLng / 2))"

definition calculateDistance :: "real \<Rightarrow> real \<Rightarrow> real \<Rightarrow> real \<Rightarrow> real" where
  "calculateDistance lat1 lng1 lat2 lng2 =
     (let R = 6371;
          a = haversine lat1 lng1 lat2 lng2;
          c = 2 * atan2 (sqrt a) (sqrt (1 - a))
      in R * c)"

text \<open>
  The rest of \<^verbatim>\<open>calculateDistance\<close> once the term \<^verbatim>\<open>a\<close> has its value, in the arithmetic of the
  program. The source computes \<^verbatim>\<open>a\<close> as a sum of rounded products and does not clamp it: for
  endpoints on opposite sides of the globe, where the exact term is 1, the computed term can be
  the next number above 1, as at \<^verbatim>\<open>calculateDistance(2.5, 0, -2.5, 180)\<close>, where it is
  \<open>1 + 1 / 2 ^ 52\<close>. \<^verbatim>\<open>Math.sqrt\<close> of a negative number is NaN, and
  \<^verbatim>\<open>Math.atan2\<close> and the products hand NaN on. \<open>None\<close> is NaN.
\<close>

definition distanceFromTerm :: "real \<Rightarrow> real option" where
  "distanceFromTerm a =
     (if a < 0 \<or> 1 - a < 0 then None
      else (let R = 6371;
                c = 2 * atan2 (sqrt a) (sqrt (1 - a))
            in Some (R * c)))"

definition calculateDistanceToClosestPoint ::
  "real \<Rightarrow> real \<Rightarrow> real \<Rightarrow> real \<Rightarrow> real \<Rightarrow> real \<Rightarrow> real \<times> endpoint" where
  "calculateDistanceToClosestPoint poiLat poiLng originLat originLng destLat destLng =
     (let distanceToOrigin = calculateDistance poiLat poiLng originLat originLng;
          distanceToDestination = calculateDistance poiLat poiLng destLat destLng
      in if distanceToOrigin \<le> distanceToDestination then (distanceToOrigin, Origin)
         else (distanceToDestination, Destination))"

section \<open>Route orchestrator (route-orchestrator.ts)\<close>

record RouteCheckpoint =
  cp_location :: Location
  distanceFromStart :: real
  estimatedTime :: int

text \<open>The private \<^verbatim>\<open>calculateDistance\<close> of the orchestrator repeats the haversine formula on two locations.\<close>

definition routeDistance :: "Location \<Rightarrow> Location \<Rightarrow> real" where
  "routeDistance from_loc to_loc =
     (let R = 6371;
          dLat = toRadians (lat to_loc - lat from_loc);
          dLng = toRadians (lng to_loc - lng from_loc);
          a = sin (dLat / 2) * sin (dLat / 2) +
              cos (toRadians (lat from_loc)) * cos (toRadians (lat to_loc)) * sin (dLng / 2) * sin (dLng / 2);
          c = 2 * atan2 (sqrt a) (sqrt (1 - a))
      in R * c)"

text \<open>
  A division whose divisor is computed: a zero divisor, which gives an infinity or NaN in the
  source, is \<open>None\<close> here.
\<close>

definition divide_checked :: "real \<Rightarrow> real \<Rightarrow> real option" where
  "divide_checked x y = (if y = 0 then None else Some (x / y))"

text \<open>\<^verbatim>\<open>new Date(ms)\<close>: the time value is the argument with its fraction cut off.\<close>

definition newDate :: "real \<Rightarrow> int" where
  "newDate ms = (if ms \<ge> 0 then \<lfloor>ms\<rfloor> else \<lceil>ms\<rceil>)"

text \<open>The body of the loop of \<^verbatim>\<open>generateRouteCheckpoints\<close> at index \<open>i\<close>.\<close>

definition checkpointAt :: "RouteInput \<Rightarrow> real \<Rightarrow> int \<Rightarrow> nat \<Rightarrow> RouteCheckpoint option" where
  "checkpointAt routeInput distance numberOfCheckpoints i =
     (case divide_checked (real i) (of_int (numberOfCheckpoints - 1)) of
        None \<Rightarrow> None
      | Some progress \<Rightarrow>
          Some \<lparr>cp_location =
                  \<lparr>lat = lat (route_from routeInput) +
                         (lat (route_to routeInput) - lat (route_from routeInput)) * progress,
                   lng = lng (route_from routeInput) +
                         (lng (route_to routeInput) - lng (route_from routeInput)) * progress,
                   address = ''Checkpoint '' @ showNat (i + 1)\<rparr>,
                distanceFromStart = progress * distance,
                estimatedTime =
                  newDate (of_int (departureTime routeInput) +
                           ((progress * distance) / 80) * 60 * 60 * 1000)\<rparr>)"

definition generateRouteCheckpoints :: "RouteInput \<Rightarrow> RouteCheckpoint list option" where
  "generateRouteCheckpoints routeInput =
     (let distance = routeDistance (route_from routeInput) (route_to routeInput);
          numberOfCheckpoints = max 2 \<lfloor>distance / 50\<rfloor>
      in those (map (checkpointAt routeInput distance numberOfCheckpoints)
                  [0..<nat numberOfCheckpoints]))"

text \<open>
  The rest of \<^verbatim>\<open>generateRouteCheckpoints\<close> once \<^verbatim>\<open>distance\<close> has its value, which is a number
  or NaN (\<open>None\<close>). With NaN, \<^verbatim>\<open>Math.floor(distance / 50)\<close> and \<^verbatim>\<open>Math.max(2, NaN)\<close> are NaN,
  the test \<^verbatim>\<open>i < numberOfCheckpoints\<close> of the loop is false at once, and the list stays empty.
\<close>

definition generateRouteCheckpointsFrom :: "RouteInput \<Rightarrow> real option \<Rightarrow> RouteCheckpoint list option" where
  "generateRouteCheckpointsFrom routeInput distance =
     (case distance of
        None \<Rightarrow> Some []
      | Some d \<Rightarrow>
          (let numberOfCheckpoints = max 2 \<lfloor>d / 50\<rfloor>
           in those (map (checkpointAt routeInput d numberOfCheckpoints)
                       [0..<nat numberOfCheckpoints])))"

text \<open>Two records whose names differ only in case and white space, in one coordinate bucket.\<close>

definition blueCafe :: "string \<Rightarrow> string \<Rightarrow> real \<Rightarrow> POI" where
  "blueCafe i n la =
     \<lparr>poi_id = i, name = n, description = ''A cozy spot'', category = ''Restaurants'',
      location = \<lparr>lat = la, lng = 77.1, address = ''Address not available''\<rparr>,
      rating = Some 4.5, priceLevel = Some 2, photos = [], openingHours = [],
      website = None, phone = None, weather = None, aiScore = 0, distanceFromRoute = 0,
      closestTo = None\<rparr>"

text \<open>
  A scored POI of a given category with score \<open>1 - i / 100\<close>, for a ranked list of one
  category. \<^verbatim>\<open>generateEnhancedMockPOIs\<close> makes POIs whose category is the text of a preference
  of the route input, so any text can be a category.
\<close>

definition scoredEntry :: "string \<Rightarrow> nat \<Rightarrow> ScoredPOI" where
  "scoredEntry cat i =
     \<lparr>poi_id = ''osm_node_'' @ showNat i, name = ''Local Attraction'',
      description = ''A popular local attraction worth visiting.'',
      category = cat,
      location = \<lparr>lat = 28.6139, lng = 77.209, address = ''Address not available''\<rparr>,
      rating = Some 4, priceLevel = Some 2, photos = [], openingHours = [],
      website = None, phone = None, weather = Some getDefaultWeather,
      aiScore = 1 - real i / 100, distanceFromRoute = 1, closestTo = Some Origin,
      scoreBreakdown = \<lparr>weatherSuitability = 1, preferenceMatch = 1, timeRelevance = 1,
        seasonalRelevance = 1, popularityScore = 1 - real i / 100, accessibilityScore = 1\<rparr>\<rparr>"

text \<open>
  The weather sub-score in the words of the specification: the suitability of the weather
  attached to the POI, blended by the sensitivity of the category.
\<close>

definition weatherSuitabilityAsSpecified :: "POI \<Rightarrow> real" where
  "weatherSuitabilityAsSpecified poi =
     (case weather poi of
        None \<Rightarrow> 0.7
      | Some w \<Rightarrow>
          (let sensitivity = orDefault (map_of categoryWeatherSensitivity (category poi)) 0.5
           in sensitivity * getWeatherSuitabilityScore w + (1 - sensitivity) * 0.8))"

text \<open>
  The popularity sub-score in the words of the specification: the defaults apply to an absent
  rating and an absent price level.
\<close>

definition popularityAsSpecified :: "POI \<Rightarrow> real" where
  "popularityAsSpecified poi =
     min 1 ((case rating poi of None \<Rightarrow> 0.3 | Some r \<Rightarrow> 0.6 * (r / 5)) +
            (case priceLevel poi of
               None \<Rightarrow> 0.14
             | Some l \<Rightarrow> 0.2 * (if l = 2 \<or> l = 3 then 1.0 else 0.7)) +
            0.2 * min 1 (0.3 * (if truthyString (website poi) then 1 else 0) +
                         0.3 * (if truthyString (phone poi) then 1 else 0) +
                         0.2 * (if length (photos poi) > 1 then 1 else 0) +
                         0.2 * (if length (openingHours poi) > 0 then 1 else 0)))"

text \<open>Sample inputs: a restaurant listing, a park under a thunderstorm, a route from Delhi to Mumbai.\<close>

definition gardenBistro ::
  "real option \<Rightarrow> real option \<Rightarrow> string option \<Rightarrow> string option \<Rightarrow> string list \<Rightarrow> string list \<Rightarrow> POI" where
  "gardenBistro r l w ph phs hrs =
     \<lparr>poi_id = ''serp_ChIJ1'', name = ''The Garden Bistro'',
      description = ''A popular dining establishment offering delicious meals.'',
      category = ''Restaurants'',
      location = \<lparr>lat = 28.6139, lng = 77.209, address = ''Address not available''\<rparr>,
      rating = r, priceLevel = l, photos = phs, openingHours = hrs,
      website = w, phone = ph, weather = Some getDefaultWeather, aiScore = 0,
      distanceFromRoute = 2, closestTo = Some Origin\<rparr>"

definition stormyPark :: POI where
  "stormyPark =
     \<lparr>poi_id = ''osm_way_7'', name = ''Central Park'',
      description = ''Beautiful green space perfect for relaxation and outdoor activities.'',
      category = ''Parks'',
      location = \<lparr>lat = 28.6139, lng = 77.209, address = ''Address not available''\<rparr>,
      rating = Some 4, priceLevel = Some 2, photos = [], openingHours = [],
      website = None, phone = None,
      weather = Some \<lparr>temperature = 20, condition = ''Thunderstorm'', humidity = 90,
                       windSpeed = 10, icon = []\<rparr>,
      aiScore = 0, distanceFromRoute = 1, closestTo = Some Origin\<rparr>"

definition delhiMumbai :: RouteInput where
  "delhiMumbai =
     \<lparr>route_from = \<lparr>lat = 28.6139, lng = 77.209, address = ''New Delhi, Delhi, India''\<rparr>,
      route_to = \<lparr>lat = 19.076, lng = 72.8777, address = ''Mumbai, Maharashtra, India''\<rparr>,
      departureTime = 1700000000000, preferences = [''Museums''], route_weather = None\<rparr>"

text \<open>
  Sample routes: a quarter of the equator, a route between two points on opposite sides of the
  globe, and a route that ends where it starts.
\<close>

definition quarterTurn :: RouteInput where
  "quarterTurn =
     \<lparr>route_from = \<lparr>lat = 0, lng = 0, address = ''Gulf of Guinea''\<rparr>,
      route_to = \<lparr>lat = 0, lng = 90, address = ''Indian Ocean''\<rparr>,
      departureTime = 1700000000000, preferences = [], route_weather = None\<rparr>"

definition antipodalEnds :: RouteInput where
  "antipodalEnds =
     \<lparr>route_from = \<lparr>lat = 2.5, lng = 0, address = ''Gulf of Guinea''\<rparr>,
      route_to = \<lparr>lat = -2.5, lng = 180, address = ''Pacific Ocean''\<rparr>,
      departureTime = 1700000000000, preferences = [], route_weather = None\<rparr>"

definition stayInDelhi :: RouteInput where
  "stayInDelhi =
     \<lparr>route_from = \<lparr>lat = 28.6139, lng = 77.209, address = ''New Delhi, Delhi, India''\<rparr>,
      route_to = \<lparr>lat = 28.6139, lng = 77.209, address = ''Connaught Place, New Delhi''\<rparr>,
      departureTime = 1700000000000, preferences = [''Museums''], route_weather = None\<rparr>"

section \<open>Properties\<close>

subsection \<open>Deduplication\<close>

lemma digitChar_not_underscore: "d < 10 \<Longrightarrow> digitChar d \<noteq> CHR ''_''"
proof -
  assume "d < 10"
  then have "d \<in> {0, 1, 2, 3, 4, 5, 6, 7, 8, 9}" by auto
  then show ?thesis by (auto simp: digitChar_def)
qed

lemma showNat_no_underscore: "CHR ''_'' \<notin> set (showNat n)"
proof (induction n rule: showNat.induct)
  case (1 n)
  show ?case
  proof (cases "n < 10")
    case True
    then show ?thesis using digitChar_not_underscore[of n] by (subst showNat.simps) auto
  next
    case False
    have "n mod 10 < 10" by simp
    then have "digitChar (n mod 10) \<noteq> CHR ''_''" by (rule digitChar_not_underscore)
    then show ?thesis using False 1 by (subst showNat.simps) auto
  qed
qed

lemma toFixed4_no_underscore: "CHR ''_'' \<notin> set (toFixed4 x)"
proof -
  define b where "b = nat \<lfloor>\<bar>x\<bar> * 10000 + 1 / 2\<rfloor> mod 10000"
  have "b < 10000" by (simp add: b_def)
  then have "b div 1000 < 10" by simp
  then have d1: "digitChar (b div 1000) \<noteq> CHR ''_''" by (rule digitChar_not_underscore)
  have d2: "digitChar (b div 100 mod 10) \<noteq> CHR ''_''" by (rule digitChar_not_underscore) simp
  have d3: "digitChar (b div 10 mod 10) \<noteq> CHR ''_''" by (rule digitChar_not_underscore) simp
  have d4: "digitChar (b mod 10) \<noteq> CHR ''_''" by (rule digitChar_not_underscore) simp
  show ?thesis
    using d1 d2 d3 d4 showNat_no_underscore
    by (auto simp: toFixed4_def Let_def b_def)
qed

lemma split_at_last_separator:
  assumes "a @ c # s = b @ c # t" and "c \<notin> set s" and "c \<notin> set t"
  shows "a = b \<and> s = t"
proof -
  from assms(1) obtain us where
    "(a = b @ us \<and> us @ c # s = c # t) \<or> (a @ us = b \<and> c # s = us @ c # t)"
    by (auto simp: append_eq_append_conv2)
  then show ?thesis
  proof
    assume h: "a = b @ us \<and> us @ c # s = c # t"
    show ?thesis
    proof (cases us)
      case Nil
      then show ?thesis using h by simp
    next
      case (Cons u us')
      then have "t = us' @ c # s" using h by simp
      then show ?thesis using assms(3) by simp
    qed
  next
    assume h: "a @ us = b \<and> c # s = us @ c # t"
    show ?thesis
    proof (cases us)
      case Nil
      then show ?thesis using h by simp
    next
      case (Cons u us')
      then have "s = us' @ c # t" using h by simp
      then show ?thesis using assms(2) by simp
    qed
  qed
qed

lemma poiKey_eq_iff:
  "poiKey p = poiKey q \<longleftrightarrow>
     name p = name q \<and> toFixed4 (lat (location p)) = toFixed4 (lat (location q)) \<and>
     toFixed4 (lng (location p)) = toFixed4 (lng (location q))"
proof
  assume eq: "poiKey p = poiKey q"
  have "(name p @ ''_'' @ toFixed4 (lat (location p))) @ CHR ''_'' # toFixed4 (lng (location p)) =
        (name q @ ''_'' @ toFixed4 (lat (location q))) @ CHR ''_'' # toFixed4 (lng (location q))"
    using eq by (simp add: poiKey_def)
  then have 1: "name p @ ''_'' @ toFixed4 (lat (location p)) = name q @ ''_'' @ toFixed4 (lat (location q))"
    and 2: "toFixed4 (lng (location p)) = toFixed4 (lng (location q))"
    using split_at_last_separator[OF _ toFixed4_no_underscore toFixed4_no_underscore] by blast+
  from 1 have "name p @ CHR ''_'' # toFixed4 (lat (location p)) = name q @ CHR ''_'' # toFixed4 (lat (location q))"
    by simp
  then have "name p = name q \<and> toFixed4 (lat (location p)) = toFixed4 (lat (location q))"
    by (rule split_at_last_separator[OF _ toFixed4_no_underscore toFixed4_no_underscore])
  with 2 show "name p = name q \<and> toFixed4 (lat (location p)) = toFixed4 (lat (location q)) \<and>
     toFixed4 (lng (location p)) = toFixed4 (lng (location q))" by simp
next
  assume "name p = name q \<and> toFixed4 (lat (location p)) = toFixed4 (lat (location q)) \<and>
     toFixed4 (lng (location p)) = toFixed4 (lng (location q))"
  then show "poiKey p = poiKey q" by (simp add: poiKey_def)
qed

lemma removeDuplicatesFrom_filter:
  "removeDuplicatesFrom (A \<union> B) ps = removeDuplicatesFrom A (filter (\<lambda>q. poiKey q \<notin> B) ps)"
proof (induction ps arbitrary: A)
  case Nil
  show ?case by simp
next
  case (Cons p ps)
  show ?case
  proof (cases "poiKey p \<in> B")
    case True
    then show ?thesis using Cons.IH[of A] by (simp add: Let_def)
  next
    case notB: False
    show ?thesis
    proof (cases "poiKey p \<in> A")
      case True
      then show ?thesis using notB Cons.IH[of A] by (simp add: Let_def)
    next
      case False
      then show ?thesis using notB Cons.IH[of "insert (poiKey p) A"] by (simp add: Let_def)
    qed
  qed
qed

lemma removeDuplicatePOIs_Cons:
  "removeDuplicatePOIs (p # ps) = p # removeDuplicatePOIs (filter (\<lambda>q. poiKey q \<noteq> poiKey p) ps)"
  using removeDuplicatesFrom_filter[of "{}" "{poiKey p}" ps]
  by (simp add: removeDuplicatePOIs_def Let_def)

lemma removeDuplicatesFrom_keys:
  "distinct (map poiKey (removeDuplicatesFrom A ps)) \<and>
   set (map poiKey (removeDuplicatesFrom A ps)) = set (map poiKey ps) - A"
  by (induction ps arbitrary: A) (auto simp: Let_def)

lemma removeDuplicatesFrom_subseq: "subseq (removeDuplicatesFrom A ps) ps"
  by (induction ps arbitrary: A) (auto simp: Let_def)

text \<open>
  C1, as the code does it. The key of \<^verbatim>\<open>removeDuplicatePOIs\<close> is the name as it is (no
  change of case, no trimming) with the \<^verbatim>\<open>toFixed(4)\<close> renderings of latitude and longitude.
  The first record with a key is kept and every later record with that key is dropped: the
  result keeps the head and continues on the later records with another key. The output is a
  subsequence of the input with pairwise distinct keys, and two records with the same name
  and the same renderings of both coordinates leave exactly one record, the first.
\<close>

theorem removeDuplicatePOIs_first_occurrence_wins:
  "(poiKey p = poiKey q \<longleftrightarrow>
      name p = name q \<and> toFixed4 (lat (location p)) = toFixed4 (lat (location q)) \<and>
      toFixed4 (lng (location p)) = toFixed4 (lng (location q))) \<and>
   removeDuplicatePOIs [] = [] \<and>
   removeDuplicatePOIs (p # ps) = p # removeDuplicatePOIs (filter (\<lambda>r. poiKey r \<noteq> poiKey p) ps) \<and>
   subseq (removeDuplicatePOIs ps) ps \<and>
   distinct (map poiKey (removeDuplicatePOIs ps)) \<and>
   set (map poiKey (removeDuplicatePOIs ps)) = set (map poiKey ps) \<and>
   (poiKey p = poiKey q \<longrightarrow> removeDuplicatePOIs [p, q] = [p])"
proof -
  have "poiKey p = poiKey q \<longrightarrow> removeDuplicatePOIs [p, q] = [p]"
    by (simp add: removeDuplicatePOIs_def Let_def)
  moreover have "removeDuplicatePOIs [] = []"
    by (simp add: removeDuplicatePOIs_def)
  moreover have "subseq (removeDuplicatePOIs ps) ps"
    by (simp add: removeDuplicatePOIs_def removeDuplicatesFrom_subseq)
  moreover have "distinct (map poiKey (removeDuplicatePOIs ps))"
    and "set (map poiKey (removeDuplicatePOIs ps)) = set (map poiKey ps)"
    using removeDuplicatesFrom_keys[of "{}" ps] by (simp_all add: removeDuplicatePOIs_def)
  ultimately show ?thesis
    using poiKey_eq_iff[of p q] removeDuplicatePOIs_Cons[of p ps] by blast
qed

theorem removeDuplicatePOIs_first_occurrence_wins_witness:
  "poiKey (blueCafe ''serp_1'' ''Blue Cafe'' 12.34561) = poiKey (blueCafe ''osm_node_2'' ''Blue Cafe'' 12.34562) \<and>
   removeDuplicatePOIs [blueCafe ''serp_1'' ''Blue Cafe'' 12.34561, blueCafe ''osm_node_2'' ''Blue Cafe'' 12.34562] =
     [blueCafe ''serp_1'' ''Blue Cafe'' 12.34561]"
proof -
  have k: "poiKey (blueCafe ''serp_1'' ''Blue Cafe'' 12.34561) = poiKey (blueCafe ''osm_node_2'' ''Blue Cafe'' 12.34562)"
    by (simp add: poiKey_def blueCafe_def toFixed4_def showNat.simps digitChar_def Let_def)
  show ?thesis
    using k removeDuplicatePOIs_first_occurrence_wins
      [of "blueCafe ''serp_1'' ''Blue Cafe'' 12.34561" "blueCafe ''osm_node_2'' ''Blue Cafe'' 12.34562" "[]"]
    by blast
qed

text \<open>
  C1 as the specification words it fails: the two records below have the same normalised
  name and the same coordinate bucket, and both are kept.
\<close>

theorem removeDuplicatePOIs_normalised_name_counterexample:
  "specKey (blueCafe ''serp_1'' ''Blue Cafe'' 12.34561) = specKey (blueCafe ''osm_node_2'' '' blue cafe '' 12.34562) \<and>
   length (removeDuplicatePOIs
     [blueCafe ''serp_1'' ''Blue Cafe'' 12.34561, blueCafe ''osm_node_2'' '' blue cafe '' 12.34562]) = 2"
  by (simp add: specKey_def trim_def toLowerCase_def toLowerChar_def removeDuplicatePOIs_def poiKey_def
      blueCafe_def toFixed4_def showNat.simps digitChar_def Let_def)


subsection \<open>Diversity selection\<close>

lemma diversityLoop_invariant:
  assumes "\<forall>c. (case m c of None \<Rightarrow> 0 | Some n \<Rightarrow> n) = length (filter (\<lambda>p. category p = c) d)"
    and "\<forall>c. length (filter (\<lambda>p. category p = c) d) \<le> 3"
    and "length d < 15"
  shows "\<exists>ys. diversityLoop d m xs = d @ ys \<and> subseq ys xs \<and>
           (\<forall>c. length (filter (\<lambda>p. category p = c) (d @ ys)) \<le> 3) \<and> length (d @ ys) \<le> 15"
  using assms
proof (induction xs arbitrary: d m)
  case Nil
  then show ?case by simp
next
  case (Cons x xs)
  let ?cur = "case m (category x) of None \<Rightarrow> 0 | Some n \<Rightarrow> n"
  have cur: "?cur = length (filter (\<lambda>p. category p = category x) d)"
    using Cons.prems(1) by blast
  show ?case
  proof (cases "\<not> (m (category x) = None \<and> category x \<in> set objectPrototypeMembers) \<and> ?cur < 3")
    case True
    let ?d = "d @ [x]"
    let ?m = "m(category x \<mapsto> ?cur + 1)"
    have a1: "\<forall>c. (case ?m c of None \<Rightarrow> 0 | Some n \<Rightarrow> n) = length (filter (\<lambda>p. category p = c) ?d)"
      using Cons.prems(1) cur by auto
    have a2: "\<forall>c. length (filter (\<lambda>p. category p = c) ?d) \<le> 3"
      using Cons.prems(2) True cur by auto
    show ?thesis
    proof (cases "length ?d \<ge> 15")
      case stop: True
      have "diversityLoop d m (x # xs) = d @ [x]"
        using True stop by (simp add: Let_def)
      moreover have "subseq [x] (x # xs)" by simp
      moreover have "length (d @ [x]) \<le> 15" using Cons.prems(3) by simp
      ultimately show ?thesis using a2 by blast
    next
      case go: False
      then have a3: "length ?d < 15" by simp
      from Cons.IH[OF a1 a2 a3] obtain ys where
        ys: "diversityLoop ?d ?m xs = ?d @ ys" "subseq ys xs"
            "\<forall>c. length (filter (\<lambda>p. category p = c) (?d @ ys)) \<le> 3" "length (?d @ ys) \<le> 15"
        by blast
      have "diversityLoop d m (x # xs) = d @ (x # ys)"
        using True go ys(1) by (simp add: Let_def)
      moreover have "subseq (x # ys) (x # xs)" using ys(2) by simp
      ultimately show ?thesis using ys(3,4) by (intro exI[of _ "x # ys"]) simp
    qed
  next
    case False
    from Cons.IH[OF Cons.prems(1) Cons.prems(2) Cons.prems(3)] obtain ys where
      ys: "diversityLoop d m xs = d @ ys" "subseq ys xs"
          "\<forall>c. length (filter (\<lambda>p. category p = c) (d @ ys)) \<le> 3" "length (d @ ys) \<le> 15"
      by blast
    have "diversityLoop d m (x # xs) = d @ ys"
      using False Cons.prems(3) ys(1) by (auto simp: Let_def)
    moreover have "subseq ys (x # xs)" using ys(2) by (rule list_emb_Cons)
    ultimately show ?thesis using ys(3,4) by blast
  qed
qed

lemma diversityLoop_category_full:
  assumes "m c = Some n" and "3 \<le> n" and "\<forall>p\<in>set xs. category p = c" and "length d < 15"
  shows "diversityLoop d m xs = d"
  using assms by (induction xs) (auto simp: Let_def)


lemma applyDiversityFiltering_one_category:
  assumes "3 \<le> length xs" and "\<forall>p\<in>set xs. category p = c"
    and "c \<notin> set objectPrototypeMembers"
  shows "applyDiversityFiltering xs = take 3 xs"
proof -
  from assms(1) obtain x1 x2 x3 rest where xs: "xs = x1 # x2 # x3 # rest"
    by (metis Suc_le_length_iff numeral_3_eq_3)
  have c: "category x1 = c" "category x2 = c" "category x3 = c" "\<forall>p\<in>set rest. category p = c"
    using assms(2) xs by auto
  have "\<And>m. m c = Some 3 \<Longrightarrow> diversityLoop [x1, x2, x3] m rest = [x1, x2, x3]"
    by (rule diversityLoop_category_full[where c = c and n = 3]) (use c in auto)
  then show ?thesis
    using c assms(3) by (simp add: applyDiversityFiltering_def xs Let_def)
qed

lemma subseq_sorted_wrt: "subseq xs ys \<Longrightarrow> sorted_wrt P ys \<Longrightarrow> sorted_wrt P xs"
proof (induction rule: list_emb.induct)
  case (list_emb_Nil ys)
  show ?case by simp
next
  case (list_emb_Cons xs ys y)
  then show ?case by simp
next
  case (list_emb_Cons2 x y xs ys)
  have "set xs \<subseteq> set ys" using list_emb_Cons2.hyps(2) by (auto elim: list_emb_set)
  then show ?case using list_emb_Cons2 by auto
qed

text \<open>
  What the selector guarantees for every input list, sorted or not: the output is a subsequence
  of the input, holds at most 3 POIs of any category and at most 15 entries, and is sorted by
  descending score when the input is. When the input has at least 3 entries, all of one
  category, and that category does not name a member of \<^verbatim>\<open>Object.prototype\<close>, the output is
  exactly the first 3 entries.
\<close>

lemma applyDiversityFiltering_bounds:
  "subseq (applyDiversityFiltering xs) xs \<and>
   (\<forall>c. length (filter (\<lambda>p. category p = c) (applyDiversityFiltering xs)) \<le> 3) \<and>
   length (applyDiversityFiltering xs) \<le> 15 \<and>
   (sorted_wrt (\<lambda>a b. aiScore a \<ge> aiScore b) xs \<longrightarrow>
      sorted_wrt (\<lambda>a b. aiScore a \<ge> aiScore b) (applyDiversityFiltering xs)) \<and>
   (3 \<le> length xs \<and> (\<forall>p\<in>set xs. category p = c0) \<and> c0 \<notin> set objectPrototypeMembers \<longrightarrow>
      applyDiversityFiltering xs = take 3 xs)"
proof -
  obtain ys where ys: "diversityLoop [] Map.empty xs = [] @ ys" "subseq ys xs"
      "\<forall>c. length (filter (\<lambda>p. category p = c) ([] @ ys)) \<le> 3" "length ([] @ ys) \<le> 15"
    using diversityLoop_invariant[of Map.empty "[]" xs] by auto
  then have out: "applyDiversityFiltering xs = ys"
    by (simp add: applyDiversityFiltering_def)
  have "sorted_wrt (\<lambda>a b. aiScore a \<ge> aiScore b) xs \<longrightarrow> sorted_wrt (\<lambda>a b. aiScore a \<ge> aiScore b) ys"
    using ys(2) subseq_sorted_wrt by blast
  moreover have "3 \<le> length xs \<and> (\<forall>p\<in>set xs. category p = c0) \<and> c0 \<notin> set objectPrototypeMembers
      \<longrightarrow> applyDiversityFiltering xs = take 3 xs"
    using applyDiversityFiltering_one_category by blast
  ultimately show ?thesis using ys out by simp
qed

lemma applyDiversityFiltering_museums:
  "applyDiversityFiltering (map (scoredEntry ''Museums'') [0..<20]) =
     [scoredEntry ''Museums'' 0, scoredEntry ''Museums'' 1, scoredEntry ''Museums'' 2]"
proof -
  have "\<forall>p\<in>set (map (scoredEntry ''Museums'') [0..<20]). category p = ''Museums''"
    by (simp add: scoredEntry_def)
  moreover have "''Museums'' \<notin> set objectPrototypeMembers"
    by (simp add: objectPrototypeMembers_def)
  moreover have "3 \<le> length (map (scoredEntry ''Museums'') [0..<20])" by simp
  ultimately have "applyDiversityFiltering (map (scoredEntry ''Museums'') [0..<20]) =
      take 3 (map (scoredEntry ''Museums'') [0..<20])"
    by (rule applyDiversityFiltering_one_category[rotated 1])
  then show ?thesis
    by (simp add: take_map upt_rec numeral_3_eq_3 numeral_2_eq_2)
qed



subsection \<open>Sub-scores\<close>

lemma if_plus: "(if c then (x::real) + a else x) = x + (if c then a else 0)"
  by simp

lemma if_plus2: "(if c then (x::real) + a else x + b) = x + (if c then a else b)"
  by simp

lemma if_negated: "(if \<not> c then a else b) = (if c then b else a)"
  by simp

lemma if_times: "(a::real) * (if c then 1 else 0) = (if c then a else 0)"
  by simp

lemma calculatePopularityScore_formula:
  "calculatePopularityScore poi =
     min 1 ((if truthyNumber (rating poi) then 0.6 * (the (rating poi) / 5) else 0.3) +
            (if truthyNumber (priceLevel poi)
             then 0.2 * (if priceLevel poi = Some 2 \<or> priceLevel poi = Some 3 then 1.0 else 0.7)
             else 0.14) +
            0.2 * min 1 (0.3 * (if truthyString (website poi) then 1 else 0) +
                         0.3 * (if truthyString (phone poi) then 1 else 0) +
                         0.2 * (if length (photos poi) > 1 then 1 else 0) +
                         0.2 * (if length (openingHours poi) > 0 then 1 else 0)))"
proof -
  have r: "(if truthyNumber (rating poi) then the (rating poi) / 5.0 * 0.6 else (0.3::real)) =
           (if truthyNumber (rating poi) then 0.6 * (the (rating poi) / 5) else 0.3)"
    by simp
  have p: "(if truthyNumber (priceLevel poi)
            then (if priceLevel poi = Some 2 \<or> priceLevel poi = Some 3 then 1.0 else 0.7) * 0.2
            else (0.14::real)) =
           (if truthyNumber (priceLevel poi)
            then 0.2 * (if priceLevel poi = Some 2 \<or> priceLevel poi = Some 3 then 1.0 else 0.7)
            else 0.14)"
    by (simp only: mult.commute)
  show ?thesis
    unfolding calculatePopularityScore_def Let_def if_plus if_plus2 if_times r p
    by (simp only: add_0 mult.commute)
qed


text \<open>
  C2, evaluated on the code. A park whose attached weather is a thunderstorm is scored in a
  route whose input carries no weather: the criteria hold the default weather (clear, 20
  degrees), so the sub-score is 1, while the suitability of the attached weather gives 0.1.
\<close>

theorem calculateWeatherSuitability_ignores_attached_weather:
  "calculateWeatherSuitability stormyPark (weatherConditions (buildFilteringCriteria delhiMumbai 10 5)) = 1 \<and>
   weatherSuitabilityAsSpecified stormyPark = 0.1"
  by (simp add: calculateWeatherSuitability_def weatherSuitabilityAsSpecified_def stormyPark_def
      buildFilteringCriteria_def delhiMumbai_def getDefaultWeather_def getWeatherSuitabilityScore_def
      conditionScores_def categoryWeatherSensitivity_def orDefault_def Let_def)


text \<open>
  C7, as the code does it. The rating counts when it is present and not 0, the price level when
  it is present and not 0; otherwise the defaults 0.3 and 0.14 apply. The sum with the bonus
  part is capped at 1, and a POI with rating 5, price level 2, a website, a phone, two photos
  and opening hours scores exactly 1.
\<close>

theorem calculatePopularityScore_parts:
  "calculatePopularityScore poi =
     min 1 ((if rating poi = None \<or> rating poi = Some 0 then 0.3 else 0.6 * (the (rating poi) / 5)) +
            (if priceLevel poi = None \<or> priceLevel poi = Some 0 then 0.14
             else 0.2 * (if priceLevel poi = Some 2 \<or> priceLevel poi = Some 3 then 1.0 else 0.7)) +
            0.2 * min 1 (0.3 * (if truthyString (website poi) then 1 else 0) +
                         0.3 * (if truthyString (phone poi) then 1 else 0) +
                         0.2 * (if length (photos poi) > 1 then 1 else 0) +
                         0.2 * (if length (openingHours poi) > 0 then 1 else 0))) \<and>
   (rating poi = Some 5 \<and> priceLevel poi = Some 2 \<and> truthyString (website poi) \<and>
    truthyString (phone poi) \<and> length (photos poi) = 2 \<and> openingHours poi \<noteq> [] \<longrightarrow>
      calculatePopularityScore poi = 1)"
proof -
  have r: "truthyNumber (rating poi) \<longleftrightarrow> \<not> (rating poi = None \<or> rating poi = Some 0)"
    by (cases "rating poi") (simp_all add: truthyNumber_def)
  have p: "truthyNumber (priceLevel poi) \<longleftrightarrow> \<not> (priceLevel poi = None \<or> priceLevel poi = Some 0)"
    by (cases "priceLevel poi") (simp_all add: truthyNumber_def)
  have 1: "calculatePopularityScore poi =
     min 1 ((if rating poi = None \<or> rating poi = Some 0 then 0.3 else 0.6 * (the (rating poi) / 5)) +
            (if priceLevel poi = None \<or> priceLevel poi = Some 0 then 0.14
             else 0.2 * (if priceLevel poi = Some 2 \<or> priceLevel poi = Some 3 then 1.0 else 0.7)) +
            0.2 * min 1 (0.3 * (if truthyString (website poi) then 1 else 0) +
                         0.3 * (if truthyString (phone poi) then 1 else 0) +
                         0.2 * (if length (photos poi) > 1 then 1 else 0) +
                         0.2 * (if length (openingHours poi) > 0 then 1 else 0)))"
    unfolding calculatePopularityScore_formula r p if_negated ..
  have 2: "rating poi = Some 5 \<and> priceLevel poi = Some 2 \<and> truthyString (website poi) \<and>
    truthyString (phone poi) \<and> length (photos poi) = 2 \<and> openingHours poi \<noteq> [] \<longrightarrow>
      calculatePopularityScore poi = 1"
    by (simp add: calculatePopularityScore_formula truthyNumber_def)
  show ?thesis using 1 2 by (rule conjI)
qed

theorem calculatePopularityScore_parts_witness:
  "calculatePopularityScore
     (gardenBistro (Some 5) (Some 2) (Some ''https://example.com/bistro'') (Some ''+1-555-010-2000'')
        [''interior.jpg'', ''exterior.jpg''] [''Daily: 9:00 AM - 6:00 PM'']) = 1"
proof -
  let ?p = "gardenBistro (Some 5) (Some 2) (Some ''https://example.com/bistro'') (Some ''+1-555-010-2000'')
        [''interior.jpg'', ''exterior.jpg''] [''Daily: 9:00 AM - 6:00 PM'']"
  have h: "rating ?p = Some 5 \<and> priceLevel ?p = Some 2 \<and> truthyString (website ?p) \<and>
    truthyString (phone ?p) \<and> length (photos ?p) = 2 \<and> openingHours ?p \<noteq> []"
    by (simp add: gardenBistro_def truthyString_def)
  show ?thesis
    using h calculatePopularityScore_parts[of ?p] by blast
qed

text \<open>
  C7 as the specification words it fails for a rating of 0, which is a rating of the data
  model: the code gives the default 0.3 where the formula of the claim gives 0.
\<close>

theorem calculatePopularityScore_zero_rating_counterexample:
  "calculatePopularityScore (gardenBistro (Some 0) (Some 2) None None [] []) = 0.5 \<and>
   popularityAsSpecified (gardenBistro (Some 0) (Some 2) None None [] []) = 0.2"
  by (simp add: calculatePopularityScore_formula popularityAsSpecified_def gardenBistro_def
      truthyNumber_def truthyString_def)


subsection \<open>Great-circle distance\<close>

lemma abs_mult_le_half_squares: "\<bar>x * y\<bar> \<le> (x\<^sup>2 + y\<^sup>2) / 2" for x y :: real
proof -
  have "0 \<le> (\<bar>x\<bar> - \<bar>y\<bar>)\<^sup>2" by simp
  also have "(\<bar>x\<bar> - \<bar>y\<bar>)\<^sup>2 = x\<^sup>2 + y\<^sup>2 - 2 * (\<bar>x\<bar> * \<bar>y\<bar>)"
    by (simp add: power2_diff)
  finally show ?thesis by (simp add: abs_mult)
qed

text \<open>The haversine term is half of one minus the cosine of the central angle.\<close>

lemma haversine_central_angle:
  "haversine lat1 lng1 lat2 lng2 =
     (1 - (sin (toRadians lat1) * sin (toRadians lat2) +
           cos (toRadians lat1) * cos (toRadians lat2) * cos (toRadians (lng2 - lng1)))) / 2"
proof -
  define P where "P = toRadians lat1"
  define Q where "Q = toRadians lat2"
  define L where "L = toRadians (lng2 - lng1)"
  have d: "toRadians (lat2 - lat1) = Q - P"
    by (simp add: toRadians_def P_def Q_def left_diff_distrib)
  have h: "sin (u / 2) * sin (u / 2) = (1 - cos u) / 2" for u :: real
    using cos_double_sin[of "u / 2"] by (simp add: power2_eq_square)
  have "haversine lat1 lng1 lat2 lng2 =
      sin ((Q - P) / 2) * sin ((Q - P) / 2) + cos P * cos Q * (sin (L / 2) * sin (L / 2))"
    by (simp add: haversine_def Let_def d P_def Q_def L_def)
  also have "\<dots> = (1 - cos (Q - P)) / 2 + cos P * cos Q * ((1 - cos L) / 2)"
    by (simp only: h)
  also have "\<dots> = (1 - (sin P * sin Q + cos P * cos Q * cos L)) / 2"
  proof -
    have "(1 - (cq * cp + sq * sp)) / 2 + cp * cq * ((1 - cl) / 2) = (1 - (sp * sq + cp * cq * cl)) / 2"
      for cp cq sp sq cl :: real
      by (simp add: field_simps)
    then show ?thesis by (simp only: cos_diff)
  qed
  finally show ?thesis by (simp add: P_def Q_def L_def)
qed

text \<open>
  The haversine term lies in [0, 1], so both square roots of \<^verbatim>\<open>calculateDistance\<close> are taken
  of numbers that are not negative.
\<close>

lemma haversine_unit: "0 \<le> haversine lat1 lng1 lat2 lng2 \<and> haversine lat1 lng1 lat2 lng2 \<le> 1"
proof -
  define P where "P = toRadians lat1"
  define Q where "Q = toRadians lat2"
  define L where "L = toRadians (lng2 - lng1)"
  define X where "X = sin P * sin Q + cos P * cos Q * cos L"
  have 1: "\<bar>sin P * sin Q\<bar> \<le> ((sin P)\<^sup>2 + (sin Q)\<^sup>2) / 2" by (rule abs_mult_le_half_squares)
  have "\<bar>cos P * cos Q * cos L\<bar> = \<bar>cos P * cos Q\<bar> * \<bar>cos L\<bar>" by (simp add: abs_mult)
  also have "\<dots> \<le> \<bar>cos P * cos Q\<bar> * 1" by (intro mult_left_mono) simp_all
  also have "\<dots> \<le> ((cos P)\<^sup>2 + (cos Q)\<^sup>2) / 2"
    using abs_mult_le_half_squares[of "cos P" "cos Q"] by simp
  finally have 2: "\<bar>cos P * cos Q * cos L\<bar> \<le> ((cos P)\<^sup>2 + (cos Q)\<^sup>2) / 2" .
  have "(sin P)\<^sup>2 + (cos P)\<^sup>2 = 1" "(sin Q)\<^sup>2 + (cos Q)\<^sup>2 = 1" by simp_all
  moreover have "(a + b) / 2 + (c + d) / 2 = 1" if "a + c = 1" "b + d = 1" for a b c d :: real
    using that by argo
  ultimately have "((sin P)\<^sup>2 + (sin Q)\<^sup>2) / 2 + ((cos P)\<^sup>2 + (cos Q)\<^sup>2) / 2 = 1" by blast
  moreover have "\<bar>X\<bar> \<le> \<bar>sin P * sin Q\<bar> + \<bar>cos P * cos Q * cos L\<bar>"
    unfolding X_def by (rule abs_triangle_ineq)
  ultimately have "\<bar>X\<bar> \<le> 1" using 1 2 by linarith
  then have "0 \<le> (1 - X) / 2 \<and> (1 - X) / 2 \<le> 1" by (simp add: abs_le_iff)
  then show ?thesis unfolding haversine_central_angle X_def P_def Q_def L_def .
qed

lemma atan2_first_quadrant: "0 \<le> y \<Longrightarrow> 0 \<le> x \<Longrightarrow> 0 \<le> atan2 y x"
  by (auto simp: atan2_def)

text \<open>
  In exact arithmetic the formula is symmetric and never negative, and it is 0 for identical
  coordinates.
\<close>

lemma haversine_symmetric: "haversine lat1 lng1 lat2 lng2 = haversine lat2 lng2 lat1 lng1"
proof -
  have "cos (toRadians (lng2 - lng1)) = cos (toRadians (lng1 - lng2))"
  proof -
    have "lng2 - lng1 = - (lng1 - lng2)" by simp
    then have "toRadians (lng2 - lng1) = - toRadians (lng1 - lng2)"
      by (simp only: toRadians_def mult_minus_left)
    then show ?thesis by (simp only: cos_minus)
  qed
  then show ?thesis by (simp add: haversine_central_angle mult.commute)
qed

lemma calculateDistance_symmetric:
  "calculateDistance lat1 lng1 lat2 lng2 = calculateDistance lat2 lng2 lat1 lng1"
  by (simp add: calculateDistance_def Let_def haversine_symmetric[of lat1 lng1 lat2 lng2])

lemma calculateDistance_nonneg: "0 \<le> calculateDistance lat1 lng1 lat2 lng2"
  using haversine_unit[of lat1 lng1 lat2 lng2]
    atan2_first_quadrant[of "sqrt (haversine lat1 lng1 lat2 lng2)" "sqrt (1 - haversine lat1 lng1 lat2 lng2)"]
  by (simp add: calculateDistance_def Let_def)

lemma calculateDistance_same_point: "calculateDistance lat1 lng1 lat1 lng1 = 0"
  by (simp add: calculateDistance_def Let_def haversine_def toRadians_def atan2_def)

lemma routeDistance_calculateDistance:
  "routeDistance a b = calculateDistance (lat a) (lng a) (lat b) (lng b)"
  by (simp add: routeDistance_def calculateDistance_def haversine_def Let_def)

lemma distanceFromTerm_haversine:
  "distanceFromTerm (haversine lat1 lng1 lat2 lng2) = Some (calculateDistance lat1 lng1 lat2 lng2)"
  using haversine_unit[of lat1 lng1 lat2 lng2]
  by (auto simp: distanceFromTerm_def calculateDistance_def Let_def)

lemma distanceFromTerm_nonneg:
  assumes "distanceFromTerm a = Some d"
  shows "0 \<le> d"
proof -
  have a: "0 \<le> a" "0 \<le> 1 - a" and d: "d = 6371 * (2 * atan2 (sqrt a) (sqrt (1 - a)))"
    using assms by (auto simp: distanceFromTerm_def Let_def split: if_splits)
  have "0 \<le> atan2 (sqrt a) (sqrt (1 - a))"
    using a by (intro atan2_first_quadrant) simp_all
  then show ?thesis unfolding d by simp
qed

text \<open>
  Two points on opposite sides of the globe: the exact haversine term is 1, the largest value
  with a distance, and the exact distance is half the circumference.
\<close>

lemma haversine_antipodal: "haversine 2.5 0 (-2.5) 180 = 1"
proof -
  have m: "toRadians (-2.5) = - toRadians 2.5" by (simp add: toRadians_def)
  have p: "toRadians (180 - 0) = pi" by (simp add: toRadians_def)
  have "sin x * sin (- x) + cos x * cos (- x) * cos pi = - 1" for x :: real
  proof -
    have "sin x * sin x + cos x * cos x = 1"
      using sin_cos_squared_add[of x] by (simp add: power2_eq_square)
    then show ?thesis by simp
  qed
  then show ?thesis
    unfolding haversine_central_angle m p by simp
qed

lemma calculateDistance_antipodal: "calculateDistance 2.5 0 (-2.5) 180 = 6371 * pi"
  unfolding calculateDistance_def Let_def haversine_antipodal by (simp add: atan2_def)

text \<open>
  C6, evaluated on the code. For \<^verbatim>\<open>calculateDistance(2.5, 0, -2.5, 180)\<close> the exact haversine
  term is 1 and the exact distance is 6371 \<pi>, not negative, as the claim has it. The program
  computes the term in doubles as \<open>1 + 1 / 2 ^ 52\<close>; \<^verbatim>\<open>Math.sqrt(1 - a)\<close> is then taken of a
  negative number and the result of \<^verbatim>\<open>calculateDistance\<close> is NaN, which is neither at least 0
  nor equal to the distance in the other direction (NaN as well).
\<close>

theorem calculateDistance_antipodal_not_a_number:
  "haversine 2.5 0 (-2.5) 180 = 1 \<and>
   distanceFromTerm (haversine 2.5 0 (-2.5) 180) = Some (6371 * pi) \<and>
   distanceFromTerm (1 + 1 / 2 ^ 52) = None"
proof -
  have 1: "haversine 2.5 0 (-2.5) 180 = 1" by (rule haversine_antipodal)
  have 2: "distanceFromTerm (haversine 2.5 0 (-2.5) 180) = Some (6371 * pi)"
    unfolding distanceFromTerm_haversine calculateDistance_antipodal ..
  have 3: "distanceFromTerm (1 + 1 / 2 ^ 52) = None"
    by (simp add: distanceFromTerm_def)
  show ?thesis using 1 2 3 by (intro conjI)
qed

subsection \<open>Checkpoints\<close>

lemma those_map_Some:
  "(\<And>x. x \<in> set xs \<Longrightarrow> f x = Some (g x)) \<Longrightarrow> those (map f xs) = Some (map g xs)"
  by (induction xs) simp_all

lemma checkpointAt_Some:
  assumes "2 \<le> n"
  shows "checkpointAt r D n i =
    Some \<lparr>cp_location =
            \<lparr>lat = lat (route_from r) + (lat (route_to r) - lat (route_from r)) * (real i / of_int (n - 1)),
             lng = lng (route_from r) + (lng (route_to r) - lng (route_from r)) * (real i / of_int (n - 1)),
             address = ''Checkpoint '' @ showNat (i + 1)\<rparr>,
          distanceFromStart = (real i / of_int (n - 1)) * D,
          estimatedTime =
            newDate (of_int (departureTime r) + (((real i / of_int (n - 1)) * D) / 80) * 60 * 60 * 1000)\<rparr>"
proof -
  have "(of_int (n - 1) :: real) \<noteq> 0" using assms by simp
  then show ?thesis by (simp add: checkpointAt_def divide_checked_def)
qed

lemma generateRouteCheckpoints_Some:
  fixes r :: RouteInput
  defines "D \<equiv> routeDistance (route_from r) (route_to r)"
  defines "n \<equiv> max 2 \<lfloor>D / 50\<rfloor>"
  shows "generateRouteCheckpoints r = Some (map (\<lambda>i.
     \<lparr>cp_location =
            \<lparr>lat = lat (route_from r) + (lat (route_to r) - lat (route_from r)) * (real i / of_int (n - 1)),
             lng = lng (route_from r) + (lng (route_to r) - lng (route_from r)) * (real i / of_int (n - 1)),
             address = ''Checkpoint '' @ showNat (i + 1)\<rparr>,
          distanceFromStart = (real i / of_int (n - 1)) * D,
          estimatedTime =
            newDate (of_int (departureTime r) + (((real i / of_int (n - 1)) * D) / 80) * 60 * 60 * 1000)\<rparr>)
     [0..<nat n])"
proof -
  have n2: "2 \<le> n" by (simp add: n_def)
  show ?thesis
    unfolding generateRouteCheckpoints_def Let_def D_def[symmetric] n_def[symmetric]
    by (rule those_map_Some) (rule checkpointAt_Some[OF n2])
qed

lemma checkpoints_explicit:
  fixes r :: RouteInput
  defines "D \<equiv> routeDistance (route_from r) (route_to r)"
  defines "count \<equiv> nat (max 2 \<lfloor>D / 50\<rfloor>)"
  shows "\<exists>cps. generateRouteCheckpoints r = Some cps \<and> length cps = count \<and> 2 \<le> count \<and>
    (\<forall>i<count.
       lat (cp_location (cps ! i)) =
         lat (route_from r) + (lat (route_to r) - lat (route_from r)) * (real i / real (count - 1)) \<and>
       lng (cp_location (cps ! i)) =
         lng (route_from r) + (lng (route_to r) - lng (route_from r)) * (real i / real (count - 1)) \<and>
       address (cp_location (cps ! i)) = ''Checkpoint '' @ showNat (i + 1) \<and>
       distanceFromStart (cps ! i) = (real i / real (count - 1)) * D \<and>
       estimatedTime (cps ! i) =
         newDate (of_int (departureTime r) + (((real i / real (count - 1)) * D) / 80) * 60 * 60 * 1000))"
proof -
  define n where "n = max 2 \<lfloor>D / 50\<rfloor>"
  have n2: "2 \<le> n" by (simp add: n_def)
  have cn: "count = nat n" by (simp add: count_def n_def)
  have r1: "real (count - 1) = of_int (n - 1)" using n2 cn by (simp add: of_nat_diff)
  have c2: "2 \<le> count" using n2 cn by simp
  show ?thesis
    using generateRouteCheckpoints_Some[of r] c2
    unfolding D_def[symmetric] n_def[symmetric] cn[symmetric] r1[symmetric]
    by simp
qed

lemma newDate_mono: "x \<le> y \<Longrightarrow> newDate x \<le> newDate y"
proof -
  assume xy: "x \<le> y"
  show ?thesis
  proof (cases "0 \<le> x")
    case True
    then show ?thesis using xy by (simp add: newDate_def floor_mono)
  next
    case False
    then have "\<lceil>x\<rceil> \<le> 0" by (simp add: ceiling_le_iff)
    show ?thesis
    proof (cases "0 \<le> y")
      case True
      then have "0 \<le> \<lfloor>y\<rfloor>" by simp
      moreover have "newDate x = \<lceil>x\<rceil>" "newDate y = \<lfloor>y\<rfloor>"
        using False True by (simp_all add: newDate_def)
      ultimately show ?thesis using \<open>\<lceil>x\<rceil> \<le> 0\<close> by linarith
    next
      case ny: False
      then show ?thesis using False xy by (simp add: newDate_def ceiling_mono)
    qed
  qed
qed

lemma newDate_of_int: "newDate (of_int d) = d"
  by (simp add: newDate_def)

text \<open>
  With the exact haversine term, the planner on a computed distance is the planner on the
  exact distance.
\<close>

lemma generateRouteCheckpoints_exact_term:
  "generateRouteCheckpoints r =
     generateRouteCheckpointsFrom r
       (distanceFromTerm (haversine (lat (route_from r)) (lng (route_from r))
                                    (lat (route_to r)) (lng (route_to r))))"
  by (simp add: distanceFromTerm_haversine generateRouteCheckpointsFrom_def
      generateRouteCheckpoints_def routeDistance_calculateDistance Let_def)

lemma generateRouteCheckpointsFrom_explicit:
  fixes r :: RouteInput and D :: real
  defines "count \<equiv> nat (max 2 \<lfloor>D / 50\<rfloor>)"
  shows "\<exists>cps. generateRouteCheckpointsFrom r (Some D) = Some cps \<and> length cps = count \<and> 2 \<le> count \<and>
    (\<forall>i<count.
       distanceFromStart (cps ! i) = (real i / real (count - 1)) * D \<and>
       estimatedTime (cps ! i) =
         newDate (of_int (departureTime r) + (((real i / real (count - 1)) * D) / 80) * 60 * 60 * 1000))"
proof -
  define n where "n = max 2 \<lfloor>D / 50\<rfloor>"
  have n2: "2 \<le> n" by (simp add: n_def)
  have cn: "count = nat n" by (simp add: count_def n_def)
  have r1: "real (count - 1) = of_int (n - 1)" using n2 cn by (simp add: of_nat_diff)
  have c2: "2 \<le> count" using n2 cn by simp
  have "generateRouteCheckpointsFrom r (Some D) = Some (map (\<lambda>i.
     \<lparr>cp_location =
            \<lparr>lat = lat (route_from r) + (lat (route_to r) - lat (route_from r)) * (real i / of_int (n - 1)),
             lng = lng (route_from r) + (lng (route_to r) - lng (route_from r)) * (real i / of_int (n - 1)),
             address = ''Checkpoint '' @ showNat (i + 1)\<rparr>,
          distanceFromStart = (real i / of_int (n - 1)) * D,
          estimatedTime =
            newDate (of_int (departureTime r) + (((real i / of_int (n - 1)) * D) / 80) * 60 * 60 * 1000)\<rparr>)
     [0..<nat n])"
    unfolding generateRouteCheckpointsFrom_def option.case Let_def n_def[symmetric]
    by (rule those_map_Some) (rule checkpointAt_Some[OF n2])
  then show ?thesis
    using c2 unfolding cn[symmetric] r1[symmetric] by simp
qed

text \<open>
  C5, evaluated on the code. For the route from (2.5, 0) to (-2.5, 180) the great-circle
  distance is 6371 \<pi>, and the claim gives \<open>max 2 (floor (6371 \<pi> / 50))\<close> checkpoints, two at
  least, the first at the origin and the last at the destination. The program computes the
  haversine term as \<open>1 + 1 / 2 ^ 52\<close>, the distance is NaN, and the planner returns the empty
  list.
\<close>

theorem generateRouteCheckpoints_antipodal_empty:
  "routeDistance (route_from antipodalEnds) (route_to antipodalEnds) = 6371 * pi \<and>
   2 \<le> nat (max 2 \<lfloor>6371 * pi / 50\<rfloor>) \<and>
   generateRouteCheckpointsFrom antipodalEnds (distanceFromTerm (1 + 1 / 2 ^ 52)) = Some []"
proof -
  have 1: "routeDistance (route_from antipodalEnds) (route_to antipodalEnds) = 6371 * pi"
    using calculateDistance_antipodal
    by (simp add: routeDistance_calculateDistance antipodalEnds_def)
  have 2: "2 \<le> nat (max 2 \<lfloor>6371 * pi / 50\<rfloor>)" by simp
  have "distanceFromTerm (1 + 1 / 2 ^ 52) = None"
    by (simp add: distanceFromTerm_def)
  then have 3: "generateRouteCheckpointsFrom antipodalEnds (distanceFromTerm (1 + 1 / 2 ^ 52)) = Some []"
    by (simp add: generateRouteCheckpointsFrom_def)
  show ?thesis using 1 2 3 by (intro conjI)
qed

text \<open>
  C8. When origin and destination have the same coordinates, the route distance is 0, no
  computed divisor is 0 (the planner returns a list), and the list has exactly two
  checkpoints, both at the coordinates of the origin.
\<close>

theorem generateRouteCheckpoints_same_point:
  assumes "lat (route_to r) = lat (route_from r)" and "lng (route_to r) = lng (route_from r)"
  shows "routeDistance (route_from r) (route_to r) = 0 \<and>
    (\<exists>c0 c1. generateRouteCheckpoints r = Some [c0, c1] \<and>
       lat (cp_location c0) = lat (route_from r) \<and> lng (cp_location c0) = lng (route_from r) \<and>
       lat (cp_location c1) = lat (route_from r) \<and> lng (cp_location c1) = lng (route_from r))"
proof -
  have D: "routeDistance (route_from r) (route_to r) = 0"
    using assms by (simp add: routeDistance_calculateDistance calculateDistance_same_point)
  obtain cps where cps: "generateRouteCheckpoints r = Some cps" "length cps = 2"
    and each: "\<forall>i<2. lat (cp_location (cps ! i)) = lat (route_from r) \<and>
                     lng (cp_location (cps ! i)) = lng (route_from r)"
    using checkpoints_explicit[of r] unfolding D using assms by auto
  from cps(2) obtain c0 c1 where l: "cps = [c0, c1]"
    by (metis (no_types, opaque_lifting) Suc_length_conv length_0_conv numeral_2_eq_2)
  have "lat (cp_location c0) = lat (route_from r) \<and> lng (cp_location c0) = lng (route_from r)"
    using each[rule_format, of 0] l by simp
  moreover have "lat (cp_location c1) = lat (route_from r) \<and> lng (cp_location c1) = lng (route_from r)"
    using each[rule_format, of 1] l by simp
  ultimately show ?thesis using D cps(1) l by blast
qed

theorem generateRouteCheckpoints_same_point_witness:
  "routeDistance (route_from stayInDelhi) (route_to stayInDelhi) = 0 \<and>
   (\<exists>c0 c1. generateRouteCheckpoints stayInDelhi = Some [c0, c1] \<and>
      lat (cp_location c0) = 28.6139 \<and> lng (cp_location c0) = 77.209 \<and>
      lat (cp_location c1) = 28.6139 \<and> lng (cp_location c1) = 77.209)"
proof -
  have h1: "lat (route_to stayInDelhi) = lat (route_from stayInDelhi)"
    and h2: "lng (route_to stayInDelhi) = lng (route_from stayInDelhi)"
    by (simp_all add: stayInDelhi_def)
  have e: "lat (route_from stayInDelhi) = 28.6139" "lng (route_from stayInDelhi) = 77.209"
    by (simp_all add: stayInDelhi_def)
  show ?thesis
    using generateRouteCheckpoints_same_point[OF h1 h2] unfolding e .
qed

text \<open>
  C10. For every route input and every value of the haversine term, exact or as the program
  computes it, the planner returns a list of checkpoints (empty when the distance is NaN);
  along the list \<open>distanceFromStart\<close> never decreases, and increases strictly when the route
  distance is positive; \<open>estimatedTime\<close> never decreases and is never before the departure
  time.
\<close>

theorem generateRouteCheckpointsFrom_monotone:
  "\<exists>cps. generateRouteCheckpointsFrom r (distanceFromTerm a) = Some cps \<and>
     (\<forall>i j. i \<le> j \<and> j < length cps \<longrightarrow>
        distanceFromStart (cps ! i) \<le> distanceFromStart (cps ! j) \<and>
        estimatedTime (cps ! i) \<le> estimatedTime (cps ! j)) \<and>
     (\<forall>d. distanceFromTerm a = Some d \<and> 0 < d \<longrightarrow>
        (\<forall>i j. i < j \<and> j < length cps \<longrightarrow> distanceFromStart (cps ! i) < distanceFromStart (cps ! j))) \<and>
     (\<forall>i<length cps. departureTime r \<le> estimatedTime (cps ! i))"
proof (cases "distanceFromTerm a")
  case None
  then have "generateRouteCheckpointsFrom r (distanceFromTerm a) = Some []"
    by (simp add: generateRouteCheckpointsFrom_def)
  then show ?thesis by simp
next
  case (Some D)
  define count where "count = nat (max 2 \<lfloor>D / 50\<rfloor>)"
  obtain cps where cps: "generateRouteCheckpointsFrom r (Some D) = Some cps" "length cps = count" "2 \<le> count"
    and each: "\<forall>i<count.
       distanceFromStart (cps ! i) = (real i / real (count - 1)) * D \<and>
       estimatedTime (cps ! i) =
         newDate (of_int (departureTime r) + (((real i / real (count - 1)) * D) / 80) * 60 * 60 * 1000)"
    using generateRouteCheckpointsFrom_explicit[of r D] unfolding count_def by blast
  have D0: "0 \<le> D" using Some by (rule distanceFromTerm_nonneg)
  have k: "0 < real (count - 1)" using cps(3) by simp
  have dfs: "distanceFromStart (cps ! i) = (real i / real (count - 1)) * D" if "i < count" for i
    using each that by blast
  have est: "estimatedTime (cps ! i) =
      newDate (of_int (departureTime r) + (((real i / real (count - 1)) * D) / 80) * 60 * 60 * 1000)"
    if "i < count" for i
    using each that by blast
  have prog: "real i / real (count - 1) \<le> real j / real (count - 1)" if "i \<le> j" for i j
    using that k by (simp add: divide_right_mono)
  have m1: "distanceFromStart (cps ! i) \<le> distanceFromStart (cps ! j) \<and>
        estimatedTime (cps ! i) \<le> estimatedTime (cps ! j)" if "i \<le> j" "j < count" for i j
  proof -
    have i: "i < count" using that by simp
    have le: "(real i / real (count - 1)) * D \<le> (real j / real (count - 1)) * D"
      using prog[OF that(1)] D0 by (rule mult_right_mono)
    have "d + (x / 80) * 60 * 60 * 1000 \<le> d + (y / 80) * 60 * 60 * 1000" if "x \<le> y" for x y d :: real
      using that by simp
    from this[OF le] have "estimatedTime (cps ! i) \<le> estimatedTime (cps ! j)"
      unfolding est[OF i] est[OF that(2)] by (rule newDate_mono)
    then show ?thesis using le by (simp only: dfs[OF i] dfs[OF that(2)] simp_thms)
  qed
  have m2: "distanceFromStart (cps ! i) < distanceFromStart (cps ! j)" if "0 < D" "i < j" "j < count" for i j
  proof -
    have i: "i < count" using that by simp
    have "real i / real (count - 1) < real j / real (count - 1)"
      using that(2) k by (simp add: divide_strict_right_mono)
    then have "(real i / real (count - 1)) * D < (real j / real (count - 1)) * D"
      using that(1) by (rule mult_strict_right_mono)
    then show ?thesis by (simp only: dfs[OF i] dfs[OF that(3)])
  qed
  have m3: "departureTime r \<le> estimatedTime (cps ! i)" if "i < count" for i
  proof -
    have "0 \<le> (((real i / real (count - 1)) * D) / 80) * 60 * 60 * 1000" using D0 by simp
    then have "of_int (departureTime r) \<le>
        of_int (departureTime r) + (((real i / real (count - 1)) * D) / 80) * 60 * 60 * 1000"
      by simp
    then have "newDate (of_int (departureTime r)) \<le> estimatedTime (cps ! i)"
      unfolding est[OF that] by (rule newDate_mono)
    then show ?thesis by (simp only: newDate_of_int)
  qed
  have c1: "\<forall>i j. i \<le> j \<and> j < length cps \<longrightarrow>
        distanceFromStart (cps ! i) \<le> distanceFromStart (cps ! j) \<and>
        estimatedTime (cps ! i) \<le> estimatedTime (cps ! j)"
    using m1 cps(2) by blast
  have c2: "\<forall>d. distanceFromTerm a = Some d \<and> 0 < d \<longrightarrow>
        (\<forall>i j. i < j \<and> j < length cps \<longrightarrow> distanceFromStart (cps ! i) < distanceFromStart (cps ! j))"
    using m2 cps(2) Some by simp
  have c3: "\<forall>i<length cps. departureTime r \<le> estimatedTime (cps ! i)"
    using m3 cps(2) by blast
  show ?thesis
    apply (rule exI[of _ cps])
    using cps(1) c1 c2 c3 unfolding Some by (intro conjI)
qed

text \<open>A quarter of the equator: the exact haversine term is 1/2 and the distance 6371 \<pi> / 2.\<close>

theorem generateRouteCheckpointsFrom_monotone_witness:
  "haversine 0 0 0 90 = 1 / 2 \<and>
   distanceFromTerm (1 / 2) = Some (6371 * (pi / 2)) \<and>
   (\<exists>cps. generateRouteCheckpointsFrom quarterTurn (distanceFromTerm (1 / 2)) = Some cps \<and>
      1 < length cps \<and>
      distanceFromStart (cps ! 0) < distanceFromStart (cps ! 1) \<and>
      estimatedTime (cps ! 0) \<le> estimatedTime (cps ! 1) \<and>
      1700000000000 \<le> estimatedTime (cps ! 0))"
proof -
  have h: "haversine 0 0 0 90 = 1 / 2"
  proof -
    have "toRadians (90 - 0) / 2 = pi / 4" by (simp add: toRadians_def)
    moreover have "sin (pi / 4) * sin (pi / 4) = 1 / 2"
      by (simp add: sin_45)
    ultimately show ?thesis
      by (simp add: haversine_def Let_def toRadians_def)
  qed
  have d: "distanceFromTerm (1 / 2) = Some (6371 * (pi / 2))"
  proof -
    have "(1::real) - 1 / 2 = 1 / 2" by simp
    moreover have "atan2 (sqrt (1 / 2)) (sqrt (1 / 2)) = pi / 4"
      by (simp add: atan2_def arctan_one)
    ultimately show ?thesis
      by (simp add: distanceFromTerm_def Let_def)
  qed
  have pos: "0 < 6371 * (pi / 2)" by simp
  obtain cps where cps: "generateRouteCheckpointsFrom quarterTurn (distanceFromTerm (1 / 2)) = Some cps"
    and m1: "\<forall>i j. i \<le> j \<and> j < length cps \<longrightarrow>
        distanceFromStart (cps ! i) \<le> distanceFromStart (cps ! j) \<and>
        estimatedTime (cps ! i) \<le> estimatedTime (cps ! j)"
    and m2: "\<forall>d. distanceFromTerm (1 / 2) = Some d \<and> 0 < d \<longrightarrow>
        (\<forall>i j. i < j \<and> j < length cps \<longrightarrow> distanceFromStart (cps ! i) < distanceFromStart (cps ! j))"
    and m3: "\<forall>i<length cps. departureTime quarterTurn \<le> estimatedTime (cps ! i)"
    using generateRouteCheckpointsFrom_monotone[of quarterTurn "1 / 2"] by blast
  have "2 \<le> length cps"
    using generateRouteCheckpointsFrom_explicit[of quarterTurn "6371 * (pi / 2)"] cps
    unfolding d by auto
  then have l: "1 < length cps" "0 < length cps" by auto
  have "distanceFromStart (cps ! 0) < distanceFromStart (cps ! 1)"
    using m2 d pos l(1) by blast
  moreover have "estimatedTime (cps ! 0) \<le> estimatedTime (cps ! 1)"
    using m1 l(1) by simp
  moreover have "1700000000000 \<le> estimatedTime (cps ! 0)"
    using m3[rule_format, OF l(2)] by (simp add: quarterTurn_def)
  ultimately show ?thesis using h d cps l(1) by blast
qed


subsection \<open>POI aggregation\<close>

lemma mockPOIsInCategory_Suc: "fst (mockPOIsInCategory env loc cat (Suc n) k) \<noteq> []"
  by (simp add: Let_def split: prod.splits)

lemma mockPOIsOfCategories_nonempty:
  assumes "0 \<le> random env k" and "cats \<noteq> []"
  shows "mockPOIsOfCategories env loc cats k \<noteq> []"
proof -
  obtain c cs where cats: "cats = c # cs" using assms(2) by (cases cats) auto
  have "0 \<le> random env k * 4" using assms(1) by simp
  then have "0 \<le> \<lfloor>random env k * 4\<rfloor>" by (simp only: zero_le_floor of_int_0)
  then have "0 < nat (\<lfloor>random env k * 4\<rfloor> + 2)" by linarith
  then obtain n where n: "nat (\<lfloor>random env k * 4\<rfloor> + 2) = Suc n"
    using gr0_implies_Suc by blast
  show ?thesis
    using mockPOIsInCategory_Suc[of env loc c n "k + 1"]
    by (simp add: cats Let_def n split: prod.splits)
qed

lemma generateEnhancedMockPOIs_nonempty:
  assumes "0 \<le> random env 0"
  shows "generateEnhancedMockPOIs env loc categories \<noteq> []"
proof -
  define target where "target =
        (if length categories > 0 then categories
         else [''Restaurants'', ''Museums'', ''Parks'', ''Shopping'', ''Historic Sites'', ''Entertainment''])"
  have "target \<noteq> []" by (simp add: target_def)
  then have "mockPOIsOfCategories env loc target 0 \<noteq> []"
    using assms by (intro mockPOIsOfCategories_nonempty)
  then show ?thesis
    unfolding generateEnhancedMockPOIs_def Let_def target_def[symmetric] .
qed

lemma removeDuplicatePOIs_nonempty: "ps \<noteq> [] \<Longrightarrow> removeDuplicatePOIs ps \<noteq> []"
  by (cases ps) (simp_all add: removeDuplicatePOIs_def Let_def)

lemma searchPOIsNearLocation_pool:
  "searchPOIsNearLocation env loc categories radius =
     (let pool = (case serpResult env of Inr ps \<Rightarrow> ps | Inl e \<Rightarrow> []) @
                 (case osmResult env of Inr ps \<Rightarrow> ps | Inl e \<Rightarrow> [])
      in Inr (take 20 (removeDuplicatePOIs
           (if pool = [] then generateEnhancedMockPOIs env loc categories else pool))))"
  by (simp add: searchPOIsNearLocation_def searchFoursquareAPI_def Let_def split: sum.splits)

text \<open>
  C9. With the draws of \<^verbatim>\<open>Math.random()\<close> in [0, 1), for every location, preference list and
  radius and whatever the two source calls do (return a list or throw), \<^verbatim>\<open>searchPOIsNearLocation\<close>
  returns a list and no error reaches the caller; a source that throws contributes no POI to
  the pool; the fallback set is not empty and stands for the pool when the pool is empty; the
  returned list is the first 20 of the deduplicated pool, so it is never empty and has at
  most 20 POIs.
\<close>

theorem searchPOIsNearLocation_total_nonempty_bounded:
  assumes "\<forall>k. 0 \<le> random env k \<and> random env k < 1"
  shows "\<exists>pois. searchPOIsNearLocation env loc categories radius = Inr pois \<and>
           pois \<noteq> [] \<and> length pois \<le> 20 \<and>
           pois = take 20 (removeDuplicatePOIs
             (let pool = (case serpResult env of Inr ps \<Rightarrow> ps | Inl e \<Rightarrow> []) @
                         (case osmResult env of Inr ps \<Rightarrow> ps | Inl e \<Rightarrow> [])
              in if pool = [] then generateEnhancedMockPOIs env loc categories else pool)) \<and>
           generateEnhancedMockPOIs env loc categories \<noteq> []"
proof -
  define pool where "pool = (case serpResult env of Inr ps \<Rightarrow> ps | Inl e \<Rightarrow> []) @
                 (case osmResult env of Inr ps \<Rightarrow> ps | Inl e \<Rightarrow> [])"
  define final where "final = (if pool = [] then generateEnhancedMockPOIs env loc categories else pool)"
  have mock: "generateEnhancedMockPOIs env loc categories \<noteq> []"
    using assms by (intro generateEnhancedMockPOIs_nonempty) simp
  then have "final \<noteq> []" by (simp add: final_def)
  then have "removeDuplicatePOIs final \<noteq> []" by (rule removeDuplicatePOIs_nonempty)
  then have ne: "take 20 (removeDuplicatePOIs final) \<noteq> []" by simp
  have res: "searchPOIsNearLocation env loc categories radius = Inr (take 20 (removeDuplicatePOIs final))"
    unfolding searchPOIsNearLocation_pool Let_def final_def pool_def ..
  show ?thesis
    using res ne mock unfolding final_def pool_def Let_def by simp
qed

theorem searchPOIsNearLocation_total_nonempty_bounded_witness:
  "\<exists>pois. searchPOIsNearLocation offlineEnv \<lparr>lat = 28.6139, lng = 77.209, address = ''Checkpoint 1''\<rparr>
       [''Museums''] 10 = Inr pois \<and> pois \<noteq> [] \<and> length pois \<le> 20"
proof -
  have h: "\<forall>k. 0 \<le> random offlineEnv k \<and> random offlineEnv k < 1"
    by (simp add: offlineEnv_def)
  show ?thesis
    using searchPOIsNearLocation_total_nonempty_bounded
      [OF h, of "\<lparr>lat = 28.6139, lng = 77.209, address = ''Checkpoint 1''\<rparr>" "[''Museums'']" 10]
    by blast
qed

end
